theory Spec2Isabelle
  imports Main
begin

section \<open>Data model (main.go, lines 16-41)\<close>

text \<open>
  Go strings are byte sequences compared bytewise; \<open>string\<close> (a list of 8-bit characters)
  is the same thing. The field names \<open>Id\<close> and \<open>Url\<close> occur in two Go structs (and
  \<open>Id\<close> is a constant of HOL), so they carry a suffix naming their struct.
\<close>

definition versionManifestURL :: string where
  "versionManifestURL = ''https://launchermeta.mojang.com/mc/game/version_manifest.json''"

record VersionRef =
  Id_ref :: string
  Url_ref :: string

record Latest_t =
  Release :: string
  Snapshot :: string

record VersionManifest =
  Latest :: Latest_t
  Versions :: "VersionRef list"

record Client_t =
  Sha1 :: string
  Size :: int
  Url_client :: string

record Downloads_t =
  Client :: Client_t

record VersionJSON =
  Id_json :: string
  Assets :: string
  Downloads :: Downloads_t

text \<open>
  Go's \<open>error\<close> values, one constructor for each place that makes one:
  \<open>client.Get\<close> failing, the two \<open>fmt.Errorf\<close> calls, the two ways \<open>dec.Decode\<close> fails,
  \<open>errors.New("version not found")\<close>, a failing call of package \<open>os\<close> or \<open>io\<close>,
  \<open>cmd.Run\<close> failing, and the errors of \<open>flag.Parse\<close> (line 103).
\<close>

datatype error =
    TransportError
  | HttpStatusFetching int string
  | HttpStatus int
  | SyntaxError
  | UnmarshalTypeError
  | VersionNotFound
  | PathError
  | ExecError
  | BadFlagSyntax string
  | FlagNotDefined string
  | FlagNeedsArgument string
  | InvalidBoolean string string
  | ErrHelp

section \<open>Version resolution (main.go, lines 89-96 and 112-118)\<close>

text \<open>
  \<open>findVersionURL\<close> returns a pair \<open>(string, error)\<close> of which the caller reads the
  string only when the error is nil: a sum, \<open>Inl\<close> the error. The \<open>range\<close> loop over
  \<open>manifest.Versions\<close> is the recursion over the list.
\<close>

fun findVersionURL_loop :: "VersionRef list \<Rightarrow> string \<Rightarrow> error + string" where
  "findVersionURL_loop [] id' = Inl VersionNotFound"
| "findVersionURL_loop (v # vs) id' =
     (if Id_ref v = id' then Inr (Url_ref v) else findVersionURL_loop vs id')"

definition findVersionURL :: "VersionManifest \<Rightarrow> string \<Rightarrow> error + string" where
  "findVersionURL manifest id' = findVersionURL_loop (Versions manifest) id'"

text \<open>Lines 112-118 of \<open>main\<close>: the id that is looked up.\<close>

definition target_id :: "VersionManifest \<Rightarrow> string \<Rightarrow> string" where
  "target_id manifest version = (if version = [] then Release (Latest manifest) else version)"

section \<open>JSON values and their decoding into the declared structs\<close>

text \<open>
  \<open>fetchJSON\<close> hands the response body to \<open>json.NewDecoder(res.Body).Decode(v)\<close>. Package
  \<open>encoding/json\<close> is not part of this repository. Its work has two halves. Reading one
  JSON value off the byte stream is left to the environment (\<open>json_read\<close> below): a body is
  syntactically well-formed when that succeeds. Storing the value into the struct that
  \<open>v\<close> points to is directed by the declarations of lines 18-41 (field types and \<open>json\<close>
  tags) and follows the rules of \<open>Unmarshal\<close>, which the definitions below write out for
  the three kinds of field the declarations use (string, int, slice of struct) and for
  structs.

  A number literal is \<open>JInt\<close> when it has neither fraction nor exponent, \<open>JFrac\<close>
  otherwise (the value of the latter is never needed: no declared field is a float).
  \<open>JString\<close> and the keys of \<open>JObject\<close> carry the decoded string. The members of an
  object are kept in the order of the text, duplicates included.
\<close>

datatype json =
    JNull
  | JBool bool
  | JInt int
  | JFrac
  | JString string
  | JArray "json list"
  | JObject "(string \<times> json) list"

text \<open>
  A key names a field when it equals the field's tag up to case. For tags made of ASCII
  letters and digits, as all tags here are, the case folding of \<open>encoding/json\<close>
  identifies an ASCII letter with its other case, and moreover U+017F (bytes C5 BF) with
  \<open>s\<close> and U+212A (bytes E2 84 AA) with \<open>k\<close>.
\<close>

definition ascii_lower :: "char \<Rightarrow> char" where
  "ascii_lower c =
     (if 65 \<le> (of_char c :: nat) \<and> (of_char c :: nat) \<le> 90
      then (case c of Char b0 b1 b2 b3 b4 b5 b6 b7 \<Rightarrow> Char b0 b1 b2 b3 b4 True b6 b7)
      else c)"

fun foldName :: "string \<Rightarrow> string" where
  "foldName [] = []"
| "foldName [c] = [ascii_lower c]"
| "foldName [c, d] =
     (if [c, d] = [CHR 0xC5, CHR 0xBF] then ''s'' else ascii_lower c # foldName [d])"
| "foldName (c # d # e # cs) =
     (if [c, d] = [CHR 0xC5, CHR 0xBF] then CHR ''s'' # foldName (e # cs)
      else if [c, d, e] = [CHR 0xE2, CHR 0x84, CHR 0xAA] then CHR ''k'' # foldName cs
      else ascii_lower c # foldName (d # e # cs))"

text \<open>
  Each decoder takes the JSON value and the current Go value of the target and returns
  the target's new value. \<open>null\<close> leaves a string, an int and a struct as they are. A type
  mismatch is recorded by the decoder and returned by \<open>Decode\<close> once the value has been
  read: the result is the error. \<open>int\<close> is taken to be 64 bits wide.
\<close>

definition dec_string :: "json \<Rightarrow> string \<Rightarrow> error + string" where
  "dec_string j cur =
     (case j of JNull \<Rightarrow> Inr cur | JString s \<Rightarrow> Inr s | _ \<Rightarrow> Inl UnmarshalTypeError)"

definition dec_int :: "json \<Rightarrow> int \<Rightarrow> error + int" where
  "dec_int j cur =
     (case j of
        JNull \<Rightarrow> Inr cur
      | JInt n \<Rightarrow> if - (2 ^ 63) \<le> n \<and> n < 2 ^ 63 then Inr n else Inl UnmarshalTypeError
      | _ \<Rightarrow> Inl UnmarshalTypeError)"

definition store :: "error + 'b \<Rightarrow> ('b \<Rightarrow> 'a) \<Rightarrow> error + 'a" where
  "store r put = (case r of Inl err \<Rightarrow> Inl err | Inr x \<Rightarrow> Inr (put x))"

fun dec_members ::
  "(string \<Rightarrow> json \<Rightarrow> 'a \<Rightarrow> error + 'a) \<Rightarrow> (string \<times> json) list \<Rightarrow> 'a \<Rightarrow> error + 'a" where
  "dec_members field [] cur = Inr cur"
| "dec_members field ((k, j) # kvs) cur =
     (case field (foldName k) j cur of
        Inl err \<Rightarrow> Inl err
      | Inr cur' \<Rightarrow> dec_members field kvs cur')"

definition dec_struct ::
  "(string \<Rightarrow> json \<Rightarrow> 'a \<Rightarrow> error + 'a) \<Rightarrow> json \<Rightarrow> 'a \<Rightarrow> error + 'a" where
  "dec_struct field j cur =
     (case j of
        JNull \<Rightarrow> Inr cur
      | JObject kvs \<Rightarrow> dec_members field kvs cur
      | _ \<Rightarrow> Inl UnmarshalTypeError)"

text \<open>
  A slice is its backing array from the slice's start (the elements beyond the array are
  zero once the array grows) and its length. An array is decoded element by element
  into the elements the backing array already holds; the length becomes the number of
  elements read; \<open>[]\<close> makes a new empty slice and \<open>null\<close> the nil slice.
\<close>

type_synonym 'a slice = "'a list \<times> nat"

fun dec_elems :: "(json \<Rightarrow> 'a \<Rightarrow> error + 'a) \<Rightarrow> 'a \<Rightarrow> json list \<Rightarrow> 'a list \<Rightarrow> error + 'a list" where
  "dec_elems elem zero [] old = Inr []"
| "dec_elems elem zero (j # js) old =
     (case elem j (case old of [] \<Rightarrow> zero | x # _ \<Rightarrow> x) of
        Inl err \<Rightarrow> Inl err
      | Inr y \<Rightarrow> store (dec_elems elem zero js (tl old)) (\<lambda>ys. y # ys))"

definition dec_slice :: "(json \<Rightarrow> 'a \<Rightarrow> error + 'a) \<Rightarrow> 'a \<Rightarrow> json \<Rightarrow> 'a slice \<Rightarrow> error + 'a slice" where
  "dec_slice elem zero j cur =
     (case j of
        JNull \<Rightarrow> Inr ([], 0)
      | JArray js \<Rightarrow>
          if js = [] then Inr ([], 0)
          else store (dec_elems elem zero js (fst cur))
                 (\<lambda>ys. (ys @ drop (length js) (fst cur), length js))
      | _ \<Rightarrow> Inl UnmarshalTypeError)"

definition slice_elems :: "'a slice \<Rightarrow> 'a list" where
  "slice_elems s = take (snd s) (fst s)"

text \<open>The decoders of the declared structs, a field function for each.\<close>

definition field_VersionRef :: "string \<Rightarrow> json \<Rightarrow> VersionRef \<Rightarrow> error + VersionRef" where
  "field_VersionRef k j cur =
     (if k = ''id'' then store (dec_string j (Id_ref cur)) (\<lambda>s. cur\<lparr>Id_ref := s\<rparr>)
      else if k = ''url'' then store (dec_string j (Url_ref cur)) (\<lambda>s. cur\<lparr>Url_ref := s\<rparr>)
      else Inr cur)"

definition field_Latest :: "string \<Rightarrow> json \<Rightarrow> Latest_t \<Rightarrow> error + Latest_t" where
  "field_Latest k j cur =
     (if k = ''release'' then store (dec_string j (Release cur)) (\<lambda>s. cur\<lparr>Release := s\<rparr>)
      else if k = ''snapshot'' then store (dec_string j (Snapshot cur)) (\<lambda>s. cur\<lparr>Snapshot := s\<rparr>)
      else Inr cur)"

definition zero_VersionRef :: VersionRef where
  "zero_VersionRef = \<lparr>Id_ref = [], Url_ref = []\<rparr>"

definition zero_Latest :: Latest_t where
  "zero_Latest = \<lparr>Release = [], Snapshot = []\<rparr>"

definition field_VersionManifest ::
  "string \<Rightarrow> json \<Rightarrow> Latest_t \<times> VersionRef slice \<Rightarrow> error + (Latest_t \<times> VersionRef slice)" where
  "field_VersionManifest k j cur =
     (if k = ''latest'' then store (dec_struct field_Latest j (fst cur)) (\<lambda>l. (l, snd cur))
      else if k = ''versions'' then
        store (dec_slice (dec_struct field_VersionRef) zero_VersionRef j (snd cur))
          (\<lambda>vs. (fst cur, vs))
      else Inr cur)"

definition decode_VersionManifest :: "json \<Rightarrow> error + VersionManifest" where
  "decode_VersionManifest j =
     store (dec_struct field_VersionManifest j (zero_Latest, ([], 0)))
       (\<lambda>cur. \<lparr>Latest = fst cur, Versions = slice_elems (snd cur)\<rparr>)"

definition field_Client :: "string \<Rightarrow> json \<Rightarrow> Client_t \<Rightarrow> error + Client_t" where
  "field_Client k j cur =
     (if k = ''sha1'' then store (dec_string j (Sha1 cur)) (\<lambda>s. cur\<lparr>Sha1 := s\<rparr>)
      else if k = ''size'' then store (dec_int j (Size cur)) (\<lambda>n. cur\<lparr>Size := n\<rparr>)
      else if k = ''url'' then store (dec_string j (Url_client cur)) (\<lambda>s. cur\<lparr>Url_client := s\<rparr>)
      else Inr cur)"

definition field_Downloads :: "string \<Rightarrow> json \<Rightarrow> Downloads_t \<Rightarrow> error + Downloads_t" where
  "field_Downloads k j cur =
     (if k = ''client'' then store (dec_struct field_Client j (Client cur)) (\<lambda>c. cur\<lparr>Client := c\<rparr>)
      else Inr cur)"

definition field_VersionJSON :: "string \<Rightarrow> json \<Rightarrow> VersionJSON \<Rightarrow> error + VersionJSON" where
  "field_VersionJSON k j cur =
     (if k = ''id'' then store (dec_string j (Id_json cur)) (\<lambda>s. cur\<lparr>Id_json := s\<rparr>)
      else if k = ''assets'' then store (dec_string j (Assets cur)) (\<lambda>s. cur\<lparr>Assets := s\<rparr>)
      else if k = ''downloads'' then
        store (dec_struct field_Downloads j (Downloads cur)) (\<lambda>d. cur\<lparr>Downloads := d\<rparr>)
      else Inr cur)"

definition zero_Client :: Client_t where
  "zero_Client = \<lparr>Sha1 = [], Size = 0, Url_client = []\<rparr>"

definition zero_VersionJSON :: VersionJSON where
  "zero_VersionJSON = \<lparr>Id_json = [], Assets = [], Downloads = \<lparr>Client = zero_Client\<rparr>\<rparr>"

definition decode_VersionJSON :: "json \<Rightarrow> error + VersionJSON" where
  "decode_VersionJSON j = dec_struct field_VersionJSON j zero_VersionJSON"

text \<open>
  Whether a JSON value has the JSON type that each declared field it names asks for.
\<close>

definition fits_string :: "json \<Rightarrow> bool" where
  "fits_string j = (case j of JNull \<Rightarrow> True | JString s \<Rightarrow> True | _ \<Rightarrow> False)"

definition fits_int :: "json \<Rightarrow> bool" where
  "fits_int j =
     (case j of JNull \<Rightarrow> True | JInt n \<Rightarrow> - (2 ^ 63) \<le> n \<and> n < 2 ^ 63 | _ \<Rightarrow> False)"

fun fits_members :: "(string \<Rightarrow> json \<Rightarrow> bool) \<Rightarrow> (string \<times> json) list \<Rightarrow> bool" where
  "fits_members fits [] = True"
| "fits_members fits ((k, j) # kvs) = (fits (foldName k) j \<and> fits_members fits kvs)"

definition fits_struct :: "(string \<Rightarrow> json \<Rightarrow> bool) \<Rightarrow> json \<Rightarrow> bool" where
  "fits_struct fits j =
     (case j of JNull \<Rightarrow> True | JObject kvs \<Rightarrow> fits_members fits kvs | _ \<Rightarrow> False)"

fun fits_elems :: "(json \<Rightarrow> bool) \<Rightarrow> json list \<Rightarrow> bool" where
  "fits_elems fits [] = True"
| "fits_elems fits (j # js) = (fits j \<and> fits_elems fits js)"

definition fits_slice :: "(json \<Rightarrow> bool) \<Rightarrow> json \<Rightarrow> bool" where
  "fits_slice fits j =
     (case j of JNull \<Rightarrow> True | JArray js \<Rightarrow> fits_elems fits js | _ \<Rightarrow> False)"

definition fits_VersionRef :: "string \<Rightarrow> json \<Rightarrow> bool" where
  "fits_VersionRef k j = (if k = ''id'' \<or> k = ''url'' then fits_string j else True)"

definition fits_Latest :: "string \<Rightarrow> json \<Rightarrow> bool" where
  "fits_Latest k j = (if k = ''release'' \<or> k = ''snapshot'' then fits_string j else True)"

definition fits_VersionManifest :: "string \<Rightarrow> json \<Rightarrow> bool" where
  "fits_VersionManifest k j =
     (if k = ''latest'' then fits_struct fits_Latest j
      else if k = ''versions'' then fits_slice (fits_struct fits_VersionRef) j
      else True)"

definition fits_Client :: "string \<Rightarrow> json \<Rightarrow> bool" where
  "fits_Client k j =
     (if k = ''sha1'' \<or> k = ''url'' then fits_string j
      else if k = ''size'' then fits_int j
      else True)"

definition fits_Downloads :: "string \<Rightarrow> json \<Rightarrow> bool" where
  "fits_Downloads k j = (if k = ''client'' then fits_struct fits_Client j else True)"

definition fits_VersionJSON :: "string \<Rightarrow> json \<Rightarrow> bool" where
  "fits_VersionJSON k j =
     (if k = ''id'' \<or> k = ''assets'' then fits_string j
      else if k = ''downloads'' then fits_struct fits_Downloads j
      else True)"

text \<open>The folded keys of an object; no key for any other value.\<close>

definition keys :: "json \<Rightarrow> string list" where
  "keys j = (case j of JObject kvs \<Rightarrow> map (\<lambda>kv. foldName (fst kv)) kvs | _ \<Rightarrow> [])"

section \<open>The world outside the program\<close>

text \<open>
  The filesystem is a map from the paths the program names to what is there; it has no
  links, and a path exists when the map has an entry for it. Every effect of the program
  is an event, and the world keeps the events in the order they happened: HTTP requests
  sent, files created, bytes appended, renames, directories made, processes started,
  lines printed to standard output and to standard error. Failed file operations change
  nothing and leave no event. A printed line is the list of its operands: strings, error
  values, and the usage text of package \<open>flag\<close>.
\<close>

datatype node = File string | Dir

datatype arg = Str string | Err error | Usage

datatype event =
    NetGet string
  | FsCreate string
  | FsWrite string string
  | FsRename string string
  | FsMkdirAll string
  | Exec "string list"
  | Stdout "arg list"
  | Stderr "arg list"

record world =
  fs :: "string \<Rightarrow> node option"
  trace :: "event list"

text \<open>
  An HTTP response: its status, the chunks of the body in the order the reads deliver
  them, and the error that ends the body instead of end-of-file, if any.
\<close>

record response =
  StatusCode :: int
  Body :: "string list"
  BodyErr :: "error option"

text \<open>
  What the program cannot decide is decided by the environment, which may answer
  differently as the run goes on: each of its answers depends on the events so far.
  \<open>http_get\<close> is \<open>client.Get\<close> (transport failures, the timeout of 20 seconds of
  \<open>fetchJSON\<close> and the absent one of \<open>downloadFile\<close> included); \<open>json_read\<close> reads one
  JSON value off a response body; the \<open>_err\<close> fields make a call of package \<open>os\<close> fail for
  a reason the map does not show (permissions, a missing parent, a full disk);
  \<open>run_err\<close> is the result of \<open>cmd.Run\<close>; \<open>path_join\<close> is \<open>filepath.Join\<close>; \<open>home\<close> is
  \<open>os.Getenv("HOME")\<close>.

  \<open>access_err\<close> is the failure to look a name up in a directory (the directory cannot
  be searched, or a component of it is not a directory). Every call of package \<open>os\<close> on
  a path looks the path up in its directory first, so this failure is shared by all
  calls on the paths of one directory made at the same point of the run: \<open>os.Stat\<close>
  then fails on a file that exists, and \<open>os.Create\<close> on its sibling fails the same way.
\<close>

record env =
  http_get :: "event list \<Rightarrow> string \<Rightarrow> error + response"
  json_read :: "response \<Rightarrow> error + json"
  access_err :: "event list \<Rightarrow> string \<Rightarrow> error option"
  create_err :: "event list \<Rightarrow> string \<Rightarrow> error option"
  write_err :: "event list \<Rightarrow> string \<Rightarrow> string \<Rightarrow> error option"
  rename_err :: "event list \<Rightarrow> string \<Rightarrow> string \<Rightarrow> error option"
  mkdir_err :: "event list \<Rightarrow> string \<Rightarrow> error option"
  run_err :: "event list \<Rightarrow> string list \<Rightarrow> error option"
  path_join :: "string list \<Rightarrow> string"
  home :: string

definition contents :: "(string \<Rightarrow> node option) \<Rightarrow> string \<Rightarrow> string" where
  "contents f p = (case f p of Some (File d) \<Rightarrow> d | _ \<Rightarrow> [])"

fun apply_event :: "event \<Rightarrow> (string \<Rightarrow> node option) \<Rightarrow> (string \<Rightarrow> node option)" where
  "apply_event (FsCreate p) f = f(p \<mapsto> File [])"
| "apply_event (FsWrite p c) f = f(p \<mapsto> File (contents f p @ c))"
| "apply_event (FsRename a b) f = (f(a := None))(b := f a)"
| "apply_event (FsMkdirAll p) f = f(p \<mapsto> Dir)"
| "apply_event (NetGet u) f = f"
| "apply_event (Exec argv) f = f"
| "apply_event (Stdout line) f = f"
| "apply_event (Stderr line) f = f"

text \<open>The filesystem after a sequence of events, from the filesystem before them.\<close>

fun replay :: "event list \<Rightarrow> (string \<Rightarrow> node option) \<Rightarrow> (string \<Rightarrow> node option)" where
  "replay [] f = f"
| "replay (e # es) f = replay es (apply_event e f)"

definition effect :: "event \<Rightarrow> world \<Rightarrow> world" where
  "effect e w = w\<lparr>fs := apply_event e (fs w), trace := trace w @ [e]\<rparr>"

text \<open>The URLs of the HTTP requests among some events, in order.\<close>

fun requests :: "event list \<Rightarrow> string list" where
  "requests [] = []"
| "requests (NetGet u # es) = u # requests es"
| "requests (e # es) = requests es"

definition println :: "arg list \<Rightarrow> world \<Rightarrow> world" where
  "println line w = effect (Stdout line) w"

definition eprintln :: "arg list \<Rightarrow> world \<Rightarrow> world" where
  "eprintln line w = effect (Stderr line) w"

definition http_Get :: "env \<Rightarrow> world \<Rightarrow> string \<Rightarrow> (error + response) \<times> world" where
  "http_Get env w url = (http_get env (trace w) url, effect (NetGet url) w)"

text \<open>The directory of a path: the path up to and with its last slash.\<close>

definition dir_of :: "string \<Rightarrow> string" where
  "dir_of p = rev (dropWhile (\<lambda>c. c \<noteq> CHR ''/'') (rev p))"

text \<open>
  \<open>os.Stat\<close> fails when the directory of the path cannot be searched, whether or not the
  path exists, and when the path does not exist; it succeeds on a file and on a
  directory alike.
\<close>

definition os_Stat :: "env \<Rightarrow> world \<Rightarrow> string \<Rightarrow> error option" where
  "os_Stat env w p =
     (case access_err env (trace w) (dir_of p) of
        Some err \<Rightarrow> Some err
      | None \<Rightarrow> (case fs w p of None \<Rightarrow> Some PathError | Some n \<Rightarrow> None))"

text \<open>\<open>os.Create\<close> makes the file or truncates it; it cannot open a directory.\<close>

definition os_Create :: "env \<Rightarrow> world \<Rightarrow> string \<Rightarrow> error option \<times> world" where
  "os_Create env w p =
     (case access_err env (trace w) (dir_of p) of
        Some err \<Rightarrow> (Some err, w)
      | None \<Rightarrow>
     (case create_err env (trace w) p of
        Some err \<Rightarrow> (Some err, w)
      | None \<Rightarrow>
          (case fs w p of
             Some Dir \<Rightarrow> (Some PathError, w)
           | _ \<Rightarrow> (None, effect (FsCreate p) w))))"

text \<open>
  \<open>os.Rename\<close> needs the old path to exist and refuses a new path that is a directory;
  otherwise the new path gets the old path's node in one step, replacing what was there.
\<close>

definition os_Rename :: "env \<Rightarrow> world \<Rightarrow> string \<Rightarrow> string \<Rightarrow> error option \<times> world" where
  "os_Rename env w a b =
     (case access_err env (trace w) (dir_of a) of
        Some err \<Rightarrow> (Some err, w)
      | None \<Rightarrow>
     (case access_err env (trace w) (dir_of b) of
        Some err \<Rightarrow> (Some err, w)
      | None \<Rightarrow>
     (case rename_err env (trace w) a b of
        Some err \<Rightarrow> (Some err, w)
      | None \<Rightarrow>
          if fs w a = None \<or> fs w b = Some Dir then (Some PathError, w)
          else (None, effect (FsRename a b) w))))"

text \<open>
  \<open>os.MkdirAll\<close> succeeds at once on a directory, fails on a file, and otherwise makes
  the directory (its ancestors are not paths the program names).
\<close>

definition os_MkdirAll :: "env \<Rightarrow> world \<Rightarrow> string \<Rightarrow> error option \<times> world" where
  "os_MkdirAll env w p =
     (case access_err env (trace w) (dir_of p) of
        Some err \<Rightarrow> (Some err, w)
      | None \<Rightarrow>
     (case mkdir_err env (trace w) p of
        Some err \<Rightarrow> (Some err, w)
      | None \<Rightarrow>
          (case fs w p of
             Some (File d) \<Rightarrow> (Some PathError, w)
           | Some Dir \<Rightarrow> (None, w)
           | None \<Rightarrow> (None, effect (FsMkdirAll p) w))))"

text \<open>
  \<open>io.Copy(out, res.Body)\<close>: each chunk read from the body is appended to the open file,
  here the file at the path it was created at. A failed write ends the copy with its
  error; when the chunks are used up the copy ends with the body's error, which is nil
  at end-of-file.
\<close>

fun io_Copy :: "env \<Rightarrow> world \<Rightarrow> string \<Rightarrow> string list \<Rightarrow> error option \<Rightarrow> error option \<times> world" where
  "io_Copy env w p [] rerr = (rerr, w)"
| "io_Copy env w p (c # cs) rerr =
     (case write_err env (trace w) p c of
        Some err \<Rightarrow> (Some err, w)
      | None \<Rightarrow> io_Copy env (effect (FsWrite p c) w) p cs rerr)"

text \<open>\<open>cmd.Run\<close>: the child process is started; what it does is not part of the world.\<close>

definition cmd_Run :: "env \<Rightarrow> world \<Rightarrow> string list \<Rightarrow> error option \<times> world" where
  "cmd_Run env w argv = (run_err env (trace w) argv, effect (Exec argv) w)"

section \<open>fetchJSON, downloadFile, ensureDir (main.go, lines 43-87)\<close>

text \<open>
  The target \<open>v\<close> of \<open>fetchJSON\<close> is, at both calls, a pointer to a zero value of a
  declared struct: the decoder of that struct is the argument. A Go \<open>error\<close> result is
  an \<open>error option\<close>, \<open>None\<close> for nil. The two \<open>Close\<close> calls change nothing here.
\<close>

definition fetchJSON :: "env \<Rightarrow> world \<Rightarrow> string \<Rightarrow> (json \<Rightarrow> error + 'a) \<Rightarrow> (error + 'a) \<times> world" where
  "fetchJSON env w url decode =
     (case http_Get env w url of
        (Inl err, w1) \<Rightarrow> (Inl err, w1)
      | (Inr res, w1) \<Rightarrow>
          if StatusCode res \<noteq> 200 then (Inl (HttpStatusFetching (StatusCode res) url), w1)
          else (case json_read env res of
                  Inl err \<Rightarrow> (Inl err, w1)
                | Inr j \<Rightarrow> (decode j, w1)))"

definition downloadFile :: "env \<Rightarrow> world \<Rightarrow> string \<Rightarrow> string \<Rightarrow> error option \<times> world" where
  "downloadFile env w url dest =
     (case os_Stat env w dest of
        None \<Rightarrow> (None, w)
      | Some err0 \<Rightarrow>
          (case os_Create env w (dest @ ''.partial'') of
             (Some err, w1) \<Rightarrow> (Some err, w1)
           | (None, w1) \<Rightarrow>
               (case http_Get env w1 url of
                  (Inl err, w2) \<Rightarrow> (Some err, w2)
                | (Inr res, w2) \<Rightarrow>
                    if StatusCode res \<noteq> 200 then (Some (HttpStatus (StatusCode res)), w2)
                    else (case io_Copy env w2 (dest @ ''.partial'') (Body res) (BodyErr res) of
                            (Some err, w3) \<Rightarrow> (Some err, w3)
                          | (None, w3) \<Rightarrow> os_Rename env w3 (dest @ ''.partial'') dest))))"

definition ensureDir :: "env \<Rightarrow> world \<Rightarrow> string \<Rightarrow> error option \<times> world" where
  "ensureDir env w p = os_MkdirAll env w p"

section \<open>main (main.go, lines 98-163)\<close>

text \<open>The values of the four flags after \<open>flag.Parse\<close> has returned.\<close>

record flags =
  version :: string
  runOffline :: bool
  minecraftDir :: string
  username :: string

text \<open>
  \<open>main\<close> returns the exit code of the process and the world it leaves: 1 where the code
  calls \<open>os.Exit(1)\<close>, 0 where \<open>main\<close> returns. Each step of \<open>main\<close> (the progress line
  it prints and the call it makes) is a definition of its own: lines 105-107, 112-120,
  126-128, 133-134, 139-141 and 145-154.
\<close>

definition versionDir :: "env \<Rightarrow> flags \<Rightarrow> string \<Rightarrow> string" where
  "versionDir env fl vid = path_join env [minecraftDir fl, ''versions'', vid]"

definition jarPath :: "env \<Rightarrow> flags \<Rightarrow> string \<Rightarrow> string" where
  "jarPath env fl vid = path_join env [versionDir env fl vid, vid @ ''.jar'']"

definition step_manifest :: "env \<Rightarrow> world \<Rightarrow> (error + VersionManifest) \<times> world" where
  "step_manifest env w =
     fetchJSON env (println [Str ''Fetching version manifest...''] w)
       versionManifestURL decode_VersionManifest"

definition step_resolve :: "flags \<Rightarrow> VersionManifest \<Rightarrow> world \<Rightarrow> (error + string) \<times> world" where
  "step_resolve fl manifest w =
     (let vid = target_id manifest (version fl);
          w1 = (if version fl = []
                then println [Str ''No version specified; using latest release:'', Str vid] w
                else w) in
      (findVersionURL manifest vid, w1))"

definition step_describe :: "env \<Rightarrow> string \<Rightarrow> string \<Rightarrow> world \<Rightarrow> (error + VersionJSON) \<times> world" where
  "step_describe env vid vurl w =
     fetchJSON env (println [Str ''Fetching version JSON for'', Str vid] w)
       vurl decode_VersionJSON"

definition step_mkdir :: "env \<Rightarrow> flags \<Rightarrow> string \<Rightarrow> world \<Rightarrow> error option \<times> world" where
  "step_mkdir env fl vid w = ensureDir env w (versionDir env fl vid)"

definition step_download ::
  "env \<Rightarrow> flags \<Rightarrow> string \<Rightarrow> VersionJSON \<Rightarrow> world \<Rightarrow> error option \<times> world" where
  "step_download env fl vid vjson w =
     downloadFile env
       (println [Str ''Downloading client jar to'', Str (jarPath env fl vid)] w)
       (Url_client (Client (Downloads vjson))) (jarPath env fl vid)"

definition step_run :: "env \<Rightarrow> flags \<Rightarrow> string \<Rightarrow> world \<Rightarrow> error option \<times> world" where
  "step_run env fl vid w =
     (let w1 = println [Str ''Downloaded.''] w in
      if runOffline fl then
        cmd_Run env
          (println [Str ''Attempting to run JAR offline (minimal test). You must have Java installed and on PATH.''] w1)
          [''java'', ''-jar'', jarPath env fl vid]
      else (None, w1))"

definition main :: "env \<Rightarrow> flags \<Rightarrow> world \<Rightarrow> int \<times> world" where
  "main env fl w =
     (case step_manifest env w of
        (Inl err, w1) \<Rightarrow> (1, eprintln [Str ''failed to fetch manifest:'', Err err] w1)
      | (Inr manifest, w1) \<Rightarrow>
     (let vid = target_id manifest (version fl) in
      case step_resolve fl manifest w1 of
        (Inl err, w2) \<Rightarrow> (1, eprintln [Str ''version not found in manifest:'', Str vid] w2)
      | (Inr vurl, w2) \<Rightarrow>
     (case step_describe env vid vurl w2 of
        (Inl err, w3) \<Rightarrow> (1, eprintln [Str ''failed to fetch version json:'', Err err] w3)
      | (Inr vjson, w3) \<Rightarrow>
     (case step_mkdir env fl vid w3 of
        (Some err, w4) \<Rightarrow> (1, eprintln [Str ''failed to create version dir:'', Err err] w4)
      | (None, w4) \<Rightarrow>
     (case step_download env fl vid vjson w4 of
        (Some err, w5) \<Rightarrow> (1, eprintln [Str ''failed to download client jar:'', Err err] w5)
      | (None, w5) \<Rightarrow>
     (case step_run env fl vid w5 of
        (Some err, w6) \<Rightarrow>
          (1, eprintln [Str ''For a real launcher you must build the full classpath (libraries), extract natives, and pass proper args like --username, --version, --gameDir, --assetsDir, --accessToken, etc.'']
                (eprintln [Str ''java failed:'', Err err] w6))
      | (None, w6) \<Rightarrow>
          (0, println [Str ''Next steps: assemble libraries, extract natives and implement Microsoft/Xbox OAuth for online play.'']
                (println [Str ''Done. Version installed to'', Str (versionDir env fl vid)] w6))))))))"

section \<open>The command line (main.go, lines 99-103)\<close>

text \<open>
  Lines 99-102 declare the flags with their defaults. \<open>flag.Parse()\<close> reads the
  arguments from left to right with the rules of package \<open>flag\<close>: an argument shorter
  than two bytes or not starting with \<open>-\<close> ends the flags, as does \<open>--\<close>; one or two
  dashes introduce a name, which ends at the first \<open>=\<close>; the boolean flag stands alone or
  takes its value after \<open>=\<close>; a string flag takes its value after \<open>=\<close> or from the next
  argument. The command line of the standard flag set is parsed with \<open>ExitOnError\<close>: on
  an error the message and the usage text go to standard error and the process ends
  with code 2, and with code 0 when the error is the request for help.
\<close>

definition default_flags :: "env \<Rightarrow> flags" where
  "default_flags env =
     \<lparr>version = [], runOffline = False,
      minecraftDir = path_join env [home env, ''.minecraft''], username = ''Player''\<rparr>"

definition parse_bool :: "string \<Rightarrow> bool option" where
  "parse_bool v =
     (if v \<in> set [''1'', ''t'', ''T'', ''TRUE'', ''true'', ''True''] then Some True
      else if v \<in> set [''0'', ''f'', ''F'', ''FALSE'', ''false'', ''False''] then Some False
      else None)"

definition flag_name :: "string \<Rightarrow> string" where
  "flag_name s = (if s ! 1 = CHR ''-'' then drop 2 s else drop 1 s)"

definition set_string_flag :: "string \<Rightarrow> string \<Rightarrow> flags \<Rightarrow> flags" where
  "set_string_flag name v fl =
     (if name = ''version'' then fl\<lparr>version := v\<rparr>
      else if name = ''mcdir'' then fl\<lparr>minecraftDir := v\<rparr>
      else fl\<lparr>username := v\<rparr>)"

fun flag_Parse :: "flags \<Rightarrow> string list \<Rightarrow> error + flags" where
  "flag_Parse fl [] = Inr fl"
| "flag_Parse fl (s # rest) =
     (if length s < 2 \<or> hd s \<noteq> CHR ''-'' \<or> s = ''--'' then Inr fl
      else if flag_name s = [] \<or> hd (flag_name s) = CHR ''-'' \<or> hd (flag_name s) = CHR ''=''
      then Inl (BadFlagSyntax s)
      else
        (let name = takeWhile (\<lambda>c. c \<noteq> CHR ''='') (flag_name s);
             hasValue = (CHR ''='' \<in> set (flag_name s));
             v = drop (length name + 1) (flag_name s) in
         if name = ''run-offline'' then
           (if hasValue then
              (case parse_bool v of
                 None \<Rightarrow> Inl (InvalidBoolean v name)
               | Some b \<Rightarrow> flag_Parse (fl\<lparr>runOffline := b\<rparr>) rest)
            else flag_Parse (fl\<lparr>runOffline := True\<rparr>) rest)
         else if name = ''version'' \<or> name = ''mcdir'' \<or> name = ''username'' then
           (if hasValue then flag_Parse (set_string_flag name v fl) rest
            else
              (case rest of
                 [] \<Rightarrow> Inl (FlagNeedsArgument name)
               | v' # rest' \<Rightarrow> flag_Parse (set_string_flag name v' fl) rest'))
         else if name = ''help'' \<or> name = ''h'' then Inl ErrHelp
         else Inl (FlagNotDefined name)))"

text \<open>The process from its arguments (\<open>os.Args[1:]\<close>): lines 99-103, then the steps.\<close>

definition program :: "env \<Rightarrow> string list \<Rightarrow> world \<Rightarrow> int \<times> world" where
  "program env args w =
     (case flag_Parse (default_flags env) args of
        Inl err \<Rightarrow>
          if err = ErrHelp then (0, eprintln [Usage] w)
          else (2, eprintln [Usage] (eprintln [Err err] w))
      | Inr fl \<Rightarrow> main env fl w)"

section \<open>Events of a download\<close>

text \<open>Whether an event changes what is at a path.\<close>

fun touches :: "string \<Rightarrow> event \<Rightarrow> bool" where
  "touches q (FsCreate p) = (p = q)"
| "touches q (FsWrite p c) = (p = q)"
| "touches q (FsRename a b) = (a = q \<or> b = q)"
| "touches q (FsMkdirAll p) = (p = q)"
| "touches q (NetGet u) = False"
| "touches q (Exec argv) = False"
| "touches q (Stdout line) = False"
| "touches q (Stderr line) = False"

text \<open>The events of \<open>downloadFile\<close> before the rename, and all events of a full download.\<close>

definition body_events :: "string \<Rightarrow> string \<Rightarrow> event \<Rightarrow> bool" where
  "body_events url dest e =
     (e = FsCreate (dest @ ''.partial'') \<or> e = NetGet url
      \<or> (\<exists>c. e = FsWrite (dest @ ''.partial'') c))"

definition download_events :: "string \<Rightarrow> string \<Rightarrow> string list \<Rightarrow> event list" where
  "download_events url dest chunks =
     FsCreate (dest @ ''.partial'') # NetGet url
       # map (FsWrite (dest @ ''.partial'')) chunks @ [FsRename (dest @ ''.partial'') dest]"

section \<open>Example environments\<close>

text \<open>
  A server that answers the manifest URL, the URL of version 1.20.2 and the URL of its
  client jar, and answers 404 elsewhere; no call of package \<open>os\<close> fails for an outside
  reason; \<open>filepath.Join\<close> on clean path elements puts a slash between them.
\<close>

definition manifest_text :: string where
  \<open>manifest_text =
     ''{"latest":{"release":"1.20.2"},"versions":[{"id":"1.20.2","url":"https://x/1.20.2.json"}]}''\<close>

definition manifest_json :: json where
  "manifest_json =
     JObject [(''latest'', JObject [(''release'', JString ''1.20.2'')]),
              (''versions'', JArray [JObject [(''id'', JString ''1.20.2''),
                                              (''url'', JString ''https://x/1.20.2.json'')]])]"

definition descriptor_text :: string where
  \<open>descriptor_text =
     ''{"id":"1.20.2","assets":"8","downloads":{"client":{"sha1":"ab","size":5,"url":"https://x/client.jar"}}}''\<close>

definition descriptor_json :: json where
  "descriptor_json =
     JObject [(''id'', JString ''1.20.2''), (''assets'', JString ''8''),
              (''downloads'', JObject [(''client'',
                 JObject [(''sha1'', JString ''ab''), (''size'', JInt 5),
                          (''url'', JString ''https://x/client.jar'')])])]"

definition mistyped_text :: string where
  \<open>mistyped_text = ''{"versions": 5}''\<close>

definition mistyped_json :: json where
  "mistyped_json = JObject [(''versions'', JInt 5)]"

definition example_read :: "response \<Rightarrow> error + json" where
  "example_read res =
     (if concat (Body res) = manifest_text then Inr manifest_json
      else if concat (Body res) = descriptor_text then Inr descriptor_json
      else if concat (Body res) = mistyped_text then Inr mistyped_json
      else Inl SyntaxError)"

definition example_get :: "event list \<Rightarrow> string \<Rightarrow> error + response" where
  "example_get history url =
     (if url = versionManifestURL then
        Inr \<lparr>StatusCode = 200, Body = [manifest_text], BodyErr = None\<rparr>
      else if url = ''https://x/1.20.2.json'' then
        Inr \<lparr>StatusCode = 200, Body = [descriptor_text], BodyErr = None\<rparr>
      else if url = ''https://x/client.jar'' then
        Inr \<lparr>StatusCode = 200, Body = [''PK'', ''jar''], BodyErr = None\<rparr>
      else Inr \<lparr>StatusCode = 404, Body = [''not found''], BodyErr = None\<rparr>)"

fun join_slash :: "string list \<Rightarrow> string" where
  "join_slash [] = []"
| "join_slash [x] = x"
| "join_slash (x # y # ys) = x @ ''/'' @ join_slash (y # ys)"

definition example_env :: env where
  "example_env =
     \<lparr>http_get = example_get, json_read = example_read,
      access_err = (\<lambda>history d. None), create_err = (\<lambda>history p. None), write_err = (\<lambda>history p c. None),
      rename_err = (\<lambda>history a b. None), mkdir_err = (\<lambda>history p. None),
      run_err = (\<lambda>history argv. None), path_join = join_slash, home = ''/home/u''\<rparr>"

text \<open>The same server answering the manifest URL with \<open>{"versions": 5}\<close>.\<close>

definition mistyped_env :: env where
  "mistyped_env =
     example_env\<lparr>http_get := (\<lambda>history url.
        Inr \<lparr>StatusCode = 200, Body = [mistyped_text], BodyErr = None\<rparr>)\<rparr>"

definition empty_world :: world where
  "empty_world = \<lparr>fs = (\<lambda>p. None), trace = []\<rparr>"

definition jar_world :: world where
  "jar_world = \<lparr>fs = [''/mc/versions/1.20.2/1.20.2.jar'' \<mapsto> File ''old''], trace = []\<rparr>"

text \<open>
  A file that exists in a directory that cannot be searched: the same server, with
  every lookup in \<open>/locked/\<close> refused.
\<close>

definition locked_env :: env where
  "locked_env =
     example_env\<lparr>access_err := (\<lambda>history d. if d = ''/locked/'' then Some PathError else None)\<rparr>"

definition locked_world :: world where
  "locked_world = \<lparr>fs = [''/locked/1.jar'' \<mapsto> File ''old''], trace = []\<rparr>"

definition example_manifest :: VersionManifest where
  "example_manifest =
     \<lparr>Latest = \<lparr>Release = ''1.20.2'', Snapshot = []\<rparr>,
      Versions = [\<lparr>Id_ref = ''1.20.2'', Url_ref = ''https://x/1.20.2.json''\<rparr>]\<rparr>"

text \<open>A manifest in which two entries share an id.\<close>

definition dup_manifest :: VersionManifest where
  "dup_manifest =
     \<lparr>Latest = \<lparr>Release = ''b'', Snapshot = []\<rparr>,
      Versions = [\<lparr>Id_ref = ''a'', Url_ref = ''u1''\<rparr>, \<lparr>Id_ref = ''b'', Url_ref = ''u2''\<rparr>,
                  \<lparr>Id_ref = ''b'', Url_ref = ''u3''\<rparr>]\<rparr>"

text \<open>The world after the client jar has been downloaded to \<open>/mc/1.jar\<close>.\<close>

definition downloaded_world :: world where
  "downloaded_world =
     \<lparr>fs = [''/mc/1.jar'' \<mapsto> File ''PKjar''],
      trace = download_events ''https://x/client.jar'' ''/mc/1.jar'' [''PK'', ''jar'']\<rparr>"

definition example_flags :: flags where
  "example_flags =
     \<lparr>version = [], runOffline = False, minecraftDir = ''/mc'', username = ''Player''\<rparr>"

section \<open>Rules for evaluating the examples\<close>

text \<open>
  The definitions that a run on a concrete environment unfolds, grouped: the calls into
  the world, the example environments, the decoders and the steps of \<open>main\<close>.
\<close>

lemmas world_defs =
  effect_def println_def eprintln_def http_Get_def os_Stat_def os_Create_def os_Rename_def
  os_MkdirAll_def cmd_Run_def contents_def dir_of_def

lemmas example_defs =
  example_env_def example_get_def example_read_def empty_world_def jar_world_def
  locked_env_def locked_world_def
  example_flags_def versionManifestURL_def manifest_text_def manifest_json_def
  descriptor_text_def descriptor_json_def mistyped_text_def mistyped_json_def
  mistyped_env_def example_manifest_def dup_manifest_def

lemmas decode_defs =
  decode_VersionManifest_def decode_VersionJSON_def dec_struct_def dec_slice_def
  dec_string_def dec_int_def store_def slice_elems_def ascii_lower_def
  field_VersionManifest_def field_Latest_def field_VersionRef_def
  field_VersionJSON_def field_Downloads_def field_Client_def
  zero_VersionRef_def zero_Latest_def zero_VersionJSON_def zero_Client_def

lemmas main_defs =
  main_def step_manifest_def step_resolve_def step_describe_def step_mkdir_def
  step_download_def step_run_def fetchJSON_def downloadFile_def ensureDir_def
  versionDir_def jarPath_def target_id_def findVersionURL_def Let_def

section \<open>Resolution: properties\<close>

lemma findVersionURL_loop_absent:
  "X \<notin> set (map Id_ref vs) \<Longrightarrow> findVersionURL_loop vs X = Inl VersionNotFound"
  by (induction vs) auto

lemma findVersionURL_loop_first:
  "X \<in> set (map Id_ref vs) \<Longrightarrow>
   \<exists>pre v post. vs = pre @ v # post \<and> Id_ref v = X \<and> X \<notin> set (map Id_ref pre)
     \<and> findVersionURL_loop vs X = Inr (Url_ref v)"
proof (induction vs)
  case Nil
  then show ?case by simp
next
  case (Cons a vs)
  show ?case
  proof (cases "Id_ref a = X")
    case True
    then have "a # vs = [] @ a # vs \<and> Id_ref a = X \<and> X \<notin> set (map Id_ref [])
        \<and> findVersionURL_loop (a # vs) X = Inr (Url_ref a)"
      by simp
    then show ?thesis by blast
  next
    case False
    with Cons.prems have "X \<in> set (map Id_ref vs)" by auto
    from Cons.IH [OF this] obtain pre v post where
      h: "vs = pre @ v # post" "Id_ref v = X" "X \<notin> set (map Id_ref pre)"
         "findVersionURL_loop vs X = Inr (Url_ref v)"
      by blast
    from h False have "a # vs = (a # pre) @ v # post \<and> Id_ref v = X
        \<and> X \<notin> set (map Id_ref (a # pre))
        \<and> findVersionURL_loop (a # vs) X = Inr (Url_ref v)"
      by auto
    then show ?thesis by blast
  qed
qed

lemma findVersionURL_absent:
  "X \<notin> set (map Id_ref (Versions manifest)) \<Longrightarrow> findVersionURL manifest X = Inl VersionNotFound"
  by (simp add: findVersionURL_def findVersionURL_loop_absent)

text \<open>
  C1. When the versions list of the manifest has an entry whose id is the requested id,
  \<open>findVersionURL\<close> returns the URL of the first such entry in the order of the list: the
  list splits into entries with another id, that entry, and the rest. With a single
  matching entry this is that entry's URL.
\<close>

theorem findVersionURL_first_match:
  assumes "X \<in> set (map Id_ref (Versions manifest))"
  shows "\<exists>pre v post. Versions manifest = pre @ v # post \<and> Id_ref v = X
           \<and> X \<notin> set (map Id_ref pre)
           \<and> findVersionURL manifest X = Inr (Url_ref v)"
  using findVersionURL_loop_first [OF assms] by (simp add: findVersionURL_def)

text \<open>In a manifest with entries a, b, b the id b resolves to the URL of the second entry.\<close>

theorem findVersionURL_first_match_witness:
  "''b'' \<in> set (map Id_ref (Versions dup_manifest))
   \<and> findVersionURL dup_manifest ''b'' = Inr ''u2''"
proof -
  have h: "''b'' \<in> set (map Id_ref (Versions dup_manifest))"
    by (simp add: dup_manifest_def)
  from findVersionURL_first_match [OF h] obtain pre v post where
    s: "Versions dup_manifest = pre @ v # post" "Id_ref v = ''b''"
       "''b'' \<notin> set (map Id_ref pre)" "findVersionURL dup_manifest ''b'' = Inr (Url_ref v)"
    by blast
  have "findVersionURL dup_manifest ''b'' = Inr ''u2''"
    by (simp add: dup_manifest_def findVersionURL_def)
  with h show ?thesis by simp
qed

section \<open>Events and the filesystem\<close>

text \<open>
  Events that do not touch a path leave it as it is; writes to a file append; every
  call into the world adds its event and applies it to the filesystem.
\<close>

lemma apply_event_frame: "\<not> touches q e \<Longrightarrow> apply_event e f q = f q"
  by (cases e) auto

lemma replay_frame: "\<forall>e\<in>set es. \<not> touches q e \<Longrightarrow> replay es f q = f q"
  by (induction es arbitrary: f) (auto simp: apply_event_frame)

lemma replay_append: "replay (xs @ ys) f = replay ys (replay xs f)"
  by (induction xs arbitrary: f) auto

lemma replay_writes:
  "f p = Some (File d) \<Longrightarrow> replay (map (FsWrite p) cs) f p = Some (File (d @ concat cs))"
  by (induction cs arbitrary: f d) (auto simp: contents_def)

lemma effect_trace: "trace (effect e w) = trace w @ [e]"
  by (simp add: effect_def)

lemma effect_fs: "fs (effect e w) = apply_event e (fs w)"
  by (simp add: effect_def)

lemma io_Copy_events:
  "io_Copy env w p cs rerr = (r, w') \<Longrightarrow>
   \<exists>k. k \<le> length cs \<and> trace w' = trace w @ map (FsWrite p) (take k cs)
     \<and> fs w' = replay (map (FsWrite p) (take k cs)) (fs w)
     \<and> (r = None \<longrightarrow> k = length cs \<and> rerr = None)"
proof (induction cs arbitrary: w)
  case Nil
  then show ?case by auto
next
  case (Cons c cs)
  show ?case
  proof (cases "write_err env (trace w) p c")
    case (Some e)
    with Cons.prems have "r = Some e" "w' = w" by auto
    then have "0 \<le> length (c # cs) \<and> trace w' = trace w @ map (FsWrite p) (take 0 (c # cs))
     \<and> fs w' = replay (map (FsWrite p) (take 0 (c # cs))) (fs w)
     \<and> (r = None \<longrightarrow> 0 = length (c # cs) \<and> rerr = None)" by simp
    then show ?thesis by blast
  next
    case None
    with Cons.prems have "io_Copy env (effect (FsWrite p c) w) p cs rerr = (r, w')" by simp
    from Cons.IH [OF this] obtain k where k: "k \<le> length cs"
      "trace w' = trace (effect (FsWrite p c) w) @ map (FsWrite p) (take k cs)"
      "fs w' = replay (map (FsWrite p) (take k cs)) (fs (effect (FsWrite p c) w))"
      "r = None \<longrightarrow> k = length cs \<and> rerr = None" by blast
    then have "Suc k \<le> length (c # cs) \<and> trace w' = trace w @ map (FsWrite p) (take (Suc k) (c # cs))
     \<and> fs w' = replay (map (FsWrite p) (take (Suc k) (c # cs))) (fs w)
     \<and> (r = None \<longrightarrow> Suc k = length (c # cs) \<and> rerr = None)"
      by (simp add: effect_trace effect_fs)
    then show ?thesis by blast
  qed
qed

lemma dir_of_partial: "dir_of (dest @ ''.partial'') = dir_of dest"
  by (simp add: dir_of_def dropWhile_append)

lemma os_Stat_exists:
  "fs w p \<noteq> None \<Longrightarrow> os_Stat env w p = access_err env (trace w) (dir_of p)"
  by (auto simp: os_Stat_def split: option.splits)

lemma os_Stat_ok: "os_Stat env w p = None \<Longrightarrow> fs w p \<noteq> None"
  by (auto simp: os_Stat_def split: option.splits)

lemma os_Create_denied:
  "access_err env (trace w) (dir_of p) = Some e \<Longrightarrow> os_Create env w p = (Some e, w)"
  by (simp add: os_Create_def)

lemma os_Create_cases:
  "os_Create env w p = (r, w') \<Longrightarrow>
   (r \<noteq> None \<and> w' = w) \<or> (r = None \<and> w' = effect (FsCreate p) w)"
  by (auto simp: os_Create_def split: option.splits node.splits)

lemma os_Rename_cases:
  "os_Rename env w a b = (r, w') \<Longrightarrow>
   (r \<noteq> None \<and> w' = w) \<or> (r = None \<and> w' = effect (FsRename a b) w)"
  by (auto simp: os_Rename_def split: option.splits if_splits)

section \<open>downloadFile: properties\<close>

text \<open>
  Every run of \<open>downloadFile\<close> has one of two shapes. Either it added only events of the
  body (the creation of the temporary file, the request, writes to the temporary file)
  and then returned an error, or returned nil having added nothing because the
  destination existed. Or it added all events of a full download, the rename last, after
  a response with status 200 whose body ended without error, and returned nil.
\<close>

lemma downloadFile_shape:
  assumes run: "downloadFile env w url dest = (r, w')"
  shows "(\<exists>pre. trace w' = trace w @ pre \<and> fs w' = replay pre (fs w)
            \<and> (\<forall>e\<in>set pre. body_events url dest e)
            \<and> (pre \<noteq> [] \<longrightarrow> fs w dest = None)
            \<and> (r \<noteq> None \<or> (pre = [] \<and> fs w dest \<noteq> None)))
       \<or> (\<exists>res. r = None \<and> fs w dest = None
            \<and> http_get env (trace w @ [FsCreate (dest @ ''.partial'')]) url = Inr res
            \<and> StatusCode res = 200 \<and> BodyErr res = None
            \<and> trace w' = trace w @ download_events url dest (Body res)
            \<and> fs w' = replay (download_events url dest (Body res)) (fs w))"
    (is "(\<exists>pre. ?A pre) \<or> (\<exists>res. ?B res)")
proof (cases "os_Stat env w dest")
  case None
  then have ex: "fs w dest \<noteq> None" by (rule os_Stat_ok)
  from None have "downloadFile env w url dest = (None, w)" by (simp add: downloadFile_def)
  with run have "r = None" "w' = w" by simp_all
  with ex have "?A []" by simp
  then show ?thesis by blast
next
  case st: (Some e0)
  let ?tmp = "dest @ ''.partial''"
  obtain r1 w1 where c: "os_Create env w ?tmp = (r1, w1)" by (cases "os_Create env w ?tmp")
  show ?thesis
  proof (cases r1)
    case (Some e)
    with os_Create_cases [OF c] have "w1 = w" by simp
    with c Some st have "downloadFile env w url dest = (Some e, w)"
      by (simp add: downloadFile_def)
    with run have "r = Some e" "w' = w" by simp_all
    then have "?A []" by simp
    then show ?thesis by blast
  next
    case r1: None
    have absent: "fs w dest = None"
    proof (rule ccontr)
      assume "fs w dest \<noteq> None"
      with st have "access_err env (trace w) (dir_of dest) = Some e0"
        by (simp add: os_Stat_exists)
      then have "os_Create env w ?tmp = (Some e0, w)"
        by (simp add: os_Create_denied dir_of_partial)
      with c r1 show False by simp
    qed
    from r1 os_Create_cases [OF c] have w1: "w1 = effect (FsCreate ?tmp) w" by simp
    let ?w2 = "effect (NetGet url) w1"
    let ?g = "http_get env (trace w @ [FsCreate ?tmp]) url"
    have g: "http_Get env w1 url = (?g, ?w2)" by (simp add: http_Get_def w1 effect_trace)
    have t2: "trace ?w2 = trace w @ [FsCreate ?tmp, NetGet url]"
      and f2: "fs ?w2 = replay [FsCreate ?tmp, NetGet url] (fs w)"
      by (simp_all add: w1 effect_trace effect_fs)
    have b2: "\<forall>e\<in>set [FsCreate ?tmp, NetGet url]. body_events url dest e"
      by (simp add: body_events_def)
    have stop: "?A [FsCreate ?tmp, NetGet url]" if "r \<noteq> None" "w' = ?w2"
      using that t2 f2 b2 absent by simp
    show ?thesis
    proof (cases ?g)
      case (Inl e)
      have "downloadFile env w url dest = (Some e, ?w2)"
        by (simp add: downloadFile_def st c r1 g Inl)
      with run have "r \<noteq> None" "w' = ?w2" by auto
      then have "?A [FsCreate ?tmp, NetGet url]" by (rule stop)
      then show ?thesis by blast
    next
      case (Inr res)
      show ?thesis
      proof (cases "StatusCode res = 200")
        case False
        have "downloadFile env w url dest = (Some (HttpStatus (StatusCode res)), ?w2)"
          by (simp add: downloadFile_def st c r1 g Inr False)
        with run have "r \<noteq> None" "w' = ?w2" by auto
        then have "?A [FsCreate ?tmp, NetGet url]" by (rule stop)
        then show ?thesis by blast
      next
        case True
        obtain r3 w3 where cp: "io_Copy env ?w2 ?tmp (Body res) (BodyErr res) = (r3, w3)"
          by (cases "io_Copy env ?w2 ?tmp (Body res) (BodyErr res)")
        from io_Copy_events [OF cp] obtain k where k: "k \<le> length (Body res)"
          "trace w3 = trace ?w2 @ map (FsWrite ?tmp) (take k (Body res))"
          "fs w3 = replay (map (FsWrite ?tmp) (take k (Body res))) (fs ?w2)"
          "r3 = None \<longrightarrow> k = length (Body res) \<and> BodyErr res = None" by blast
        let ?pre = "FsCreate ?tmp # NetGet url # map (FsWrite ?tmp) (take k (Body res))"
        have t3: "trace w3 = trace w @ ?pre" using k(2) t2 by simp
        have f3: "fs w3 = replay ?pre (fs w)" using k(3) f2 by simp
        have b3: "\<forall>e\<in>set ?pre. body_events url dest e"
          by (auto simp: body_events_def)
        show ?thesis
        proof (cases r3)
          case (Some e)
          have "downloadFile env w url dest = (Some e, w3)"
            by (simp add: downloadFile_def st c r1 g Inr True cp Some)
          with run have "r = Some e" "w' = w3" by simp_all
          with t3 f3 b3 absent have "?A ?pre" by simp
          then show ?thesis by blast
        next
          case r3: None
          with k(4) have full: "take k (Body res) = Body res" "BodyErr res = None" by simp_all
          have "downloadFile env w url dest = os_Rename env w3 ?tmp dest"
            by (simp add: downloadFile_def st c r1 g Inr True cp r3)
          with run have rn: "os_Rename env w3 ?tmp dest = (r, w')" by simp
          from os_Rename_cases [OF rn] show ?thesis
          proof
            assume "r \<noteq> None \<and> w' = w3"
            with t3 f3 b3 absent have "?A ?pre" by simp
            then show ?thesis by blast
          next
            assume a: "r = None \<and> w' = effect (FsRename ?tmp dest) w3"
            have de: "download_events url dest (Body res) = ?pre @ [FsRename ?tmp dest]"
              by (simp add: download_events_def full)
            from a have tr: "trace w' = trace w @ download_events url dest (Body res)"
              using t3 by (simp add: effect_trace de)
            from a have "fs w' = replay [FsRename ?tmp dest] (fs w3)"
              by (simp add: effect_fs)
            then have fr: "fs w' = replay (download_events url dest (Body res)) (fs w)"
              by (simp only: f3 replay_append de)
            from tr fr a absent Inr True full have "?B res"
              by simp
            then show ?thesis by blast
          qed
        qed
      qed
    qed
  qed
qed

lemma body_events_frame: "body_events url dest e \<Longrightarrow> \<not> touches dest e"
  by (auto simp: body_events_def)

lemma replay_download:
  "replay (download_events u d cs) f d = Some (File (concat cs))"
proof -
  have "replay (map (FsWrite (d @ ''.partial'')) cs) (f(d @ ''.partial'' \<mapsto> File [])) (d @ ''.partial'')
      = Some (File ([] @ concat cs))"
    by (rule replay_writes) simp
  then show ?thesis by (simp add: replay_append download_events_def)
qed

lemma downloadFile_ok_exists:
  assumes run: "downloadFile env w url dest = (None, w1)"
  shows "fs w1 dest \<noteq> None"
  using downloadFile_shape [OF run] by (auto simp: replay_download)

lemma downloadFile_exists:
  assumes "fs w dest \<noteq> None"
  shows "downloadFile env w url dest = (os_Stat env w dest, w)"
proof (cases "os_Stat env w dest")
  case None
  then show ?thesis by (simp add: downloadFile_def)
next
  case (Some e)
  with assms have "access_err env (trace w) (dir_of dest) = Some e"
    by (simp add: os_Stat_exists)
  then have "os_Create env w (dest @ ''.partial'') = (Some e, w)"
    by (simp add: os_Create_denied dir_of_partial)
  with Some show ?thesis by (simp add: downloadFile_def)
qed

lemma example_locked:
  "downloadFile locked_env locked_world ''https://x/client.jar'' ''/locked/1.jar''
     = (Some PathError, locked_world)"
  by (simp add: main_defs world_defs example_defs)

lemma example_download:
  "downloadFile example_env empty_world ''https://x/client.jar'' ''/mc/1.jar''
     = (None, downloaded_world)"
  by (simp add: main_defs world_defs example_defs download_events_def downloaded_world_def
        fun_eq_iff)

text \<open>
  C2, as amended. Download idempotence. When a regular file exists at the destination
  path and \<open>os.Stat\<close> succeeds on it, \<open>downloadFile\<close> returns nil at once and leaves the
  world as it was: no event is added, so no HTTP request is sent, and the result does
  not depend on the content of the file, which is compared with nothing. (The code
  returns the same nil for a skipped and for a completed download.) When \<open>os.Stat\<close> fails
  on the existing file, because its directory cannot be searched, the download is not
  skipped: \<open>downloadFile\<close> goes on to \<open>os.Create\<close>, which fails in the same way, and returns
  that error, again with the world as it was and no request sent. After a call that
  returned nil something exists at the destination, so a second call for the same
  destination, whatever its URL, sends no request either, and returns nil when its
  \<open>os.Stat\<close> succeeds.
\<close>

theorem download_idempotent:
  "(fs w dest = Some (File c) \<longrightarrow>
      (os_Stat env w dest = None \<longrightarrow> downloadFile env w url dest = (None, w))
      \<and> (\<forall>e. os_Stat env w dest = Some e \<longrightarrow> downloadFile env w url dest = (Some e, w))
      \<and> requests (trace (snd (downloadFile env w url dest))) = requests (trace w))
   \<and> (downloadFile env w url dest = (None, w1) \<longrightarrow>
      fs w1 dest \<noteq> None
      \<and> (os_Stat env w1 dest = None \<longrightarrow> downloadFile env w1 url2 dest = (None, w1))
      \<and> requests (trace (snd (downloadFile env w1 url2 dest))) = requests (trace w1))"
proof -
  have 1: "downloadFile env w url dest = (os_Stat env w dest, w)" if "fs w dest = Some (File c)"
    using that by (intro downloadFile_exists) simp
  have 2: "fs w1 dest \<noteq> None" if "downloadFile env w url dest = (None, w1)"
    using that by (rule downloadFile_ok_exists)
  have 3: "downloadFile env w1 url2 dest = (os_Stat env w1 dest, w1)"
    if "downloadFile env w url dest = (None, w1)"
    using 2 [OF that] by (rule downloadFile_exists)
  from 1 2 3 show ?thesis by simp
qed

text \<open>
  A skipped download over an existing jar, and a download followed by a second call; in
  both \<open>os.Stat\<close> succeeds.
\<close>

theorem download_idempotent_witness:
  "fs jar_world ''/mc/versions/1.20.2/1.20.2.jar'' = Some (File ''old'')
   \<and> os_Stat example_env jar_world ''/mc/versions/1.20.2/1.20.2.jar'' = None
   \<and> downloadFile example_env jar_world ''https://x/client.jar'' ''/mc/versions/1.20.2/1.20.2.jar''
       = (None, jar_world)
   \<and> downloadFile example_env empty_world ''https://x/client.jar'' ''/mc/1.jar''
       = (None, downloaded_world)
   \<and> os_Stat example_env downloaded_world ''/mc/1.jar'' = None
   \<and> downloadFile example_env downloaded_world ''https://x/other.jar'' ''/mc/1.jar''
       = (None, downloaded_world)"
proof -
  have 1: "fs jar_world ''/mc/versions/1.20.2/1.20.2.jar'' = Some (File ''old'')"
    by (simp add: jar_world_def)
  have s1: "os_Stat example_env jar_world ''/mc/versions/1.20.2/1.20.2.jar'' = None"
    by (simp add: os_Stat_def example_env_def jar_world_def)
  have s2: "os_Stat example_env downloaded_world ''/mc/1.jar'' = None"
    by (simp add: os_Stat_def example_env_def downloaded_world_def)
  note 2 = example_download
  from 1 s1 download_idempotent [where w = jar_world and c = "''old''" and env = example_env
      and dest = "''/mc/versions/1.20.2/1.20.2.jar''" and url = "''https://x/client.jar''"]
  have 3: "downloadFile example_env jar_world ''https://x/client.jar''
      ''/mc/versions/1.20.2/1.20.2.jar'' = (None, jar_world)"
    by blast
  from 2 s2 download_idempotent [where w = empty_world and env = example_env
      and dest = "''/mc/1.jar''" and url = "''https://x/client.jar''"
      and ?w1.0 = downloaded_world and ?url2.0 = "''https://x/other.jar''"]
  have 4: "downloadFile example_env downloaded_world ''https://x/other.jar'' ''/mc/1.jar''
       = (None, downloaded_world)"
    by blast
  from 1 s1 2 s2 3 4 show ?thesis by blast
qed

text \<open>
  C2 as stated fails: a regular file exists at the destination, in a directory that
  cannot be searched, and \<open>downloadFile\<close> returns an error instead of nil.
\<close>

theorem existing_file_not_skipped:
  "fs locked_world ''/locked/1.jar'' = Some (File ''old'')
   \<and> downloadFile locked_env locked_world ''https://x/client.jar'' ''/locked/1.jar''
       = (Some PathError, locked_world)"
  by (simp add: example_locked) (simp add: locked_world_def)

text \<open>
  C7. When \<open>os.Stat\<close> has failed on the destination, the temporary file has been created
  and the response to the request has a status outside 200..299, \<open>downloadFile\<close> returns the error
  \<open>http <status>\<close> carrying that status, and in the world it leaves the temporary file
  \<open>dest.partial\<close> is still there, empty as created; the destination is as it was.
\<close>

theorem download_status_leaves_partial:
  assumes "os_Stat env w dest \<noteq> None"
    and "os_Create env w (dest @ ''.partial'') = (None, w1)"
    and "http_Get env w1 url = (Inr res, w2)"
    and "\<not> (200 \<le> StatusCode res \<and> StatusCode res < 300)"
  shows "downloadFile env w url dest = (Some (HttpStatus (StatusCode res)), w2)
     \<and> fs w2 (dest @ ''.partial'') = Some (File [])
     \<and> fs w2 dest = fs w dest"
proof -
  from assms(4) have ne: "StatusCode res \<noteq> 200" by auto
  from os_Create_cases [OF assms(2)] have w1: "w1 = effect (FsCreate (dest @ ''.partial'')) w"
    by simp
  from assms(3) have w2: "w2 = effect (NetGet url) w1" by (simp add: http_Get_def)
  have "downloadFile env w url dest = (Some (HttpStatus (StatusCode res)), w2)"
    using assms(1) ne by (auto simp: downloadFile_def assms(2) assms(3))
  moreover have "fs w2 (dest @ ''.partial'') = Some (File [])" "fs w2 dest = fs w dest"
    by (simp_all add: w1 w2 effect_fs)
  ultimately show ?thesis by simp
qed

text \<open>A response with status 404.\<close>

theorem download_status_leaves_partial_witness:
  "os_Stat example_env empty_world ''/mc/1.jar'' \<noteq> None
   \<and> os_Create example_env empty_world ''/mc/1.jar.partial''
       = (None, effect (FsCreate ''/mc/1.jar.partial'') empty_world)
   \<and> http_Get example_env (effect (FsCreate ''/mc/1.jar.partial'') empty_world) ''https://x/gone''
       = (Inr \<lparr>StatusCode = 404, Body = [''not found''], BodyErr = None\<rparr>,
          effect (NetGet ''https://x/gone'') (effect (FsCreate ''/mc/1.jar.partial'') empty_world))
   \<and> downloadFile example_env empty_world ''https://x/gone'' ''/mc/1.jar''
       = (Some (HttpStatus 404),
          effect (NetGet ''https://x/gone'') (effect (FsCreate ''/mc/1.jar.partial'') empty_world))
   \<and> fs (effect (NetGet ''https://x/gone'') (effect (FsCreate ''/mc/1.jar.partial'') empty_world))
        ''/mc/1.jar.partial'' = Some (File [])"
proof -
  let ?w1 = "effect (FsCreate ''/mc/1.jar.partial'') empty_world"
  let ?res = "\<lparr>StatusCode = 404, Body = [''not found''], BodyErr = None\<rparr>"
  have 1: "os_Stat example_env empty_world ''/mc/1.jar'' \<noteq> None"
    by (simp add: os_Stat_def example_env_def empty_world_def)
  have 2: "os_Create example_env empty_world (''/mc/1.jar'' @ ''.partial'') = (None, ?w1)"
    by (simp add: os_Create_def example_env_def empty_world_def)
  have 3: "http_Get example_env ?w1 ''https://x/gone'' = (Inr ?res, effect (NetGet ''https://x/gone'') ?w1)"
    by (simp add: http_Get_def example_env_def example_get_def versionManifestURL_def)
  have 4: "\<not> (200 \<le> StatusCode ?res \<and> StatusCode ?res < 300)" by simp
  from download_status_leaves_partial [OF 1 2 3 4] 1 2 3 show ?thesis by simp
qed

lemma download_events_body:
  "e \<in> set (download_events url dest cs) \<Longrightarrow>
   e = FsRename (dest @ ''.partial'') dest \<or> body_events url dest e"
  by (auto simp: download_events_def body_events_def)

lemma prefix_frame:
  assumes "\<forall>e\<in>set evs. e = R \<or> body_events url dest e" and "R \<notin> set (take n evs)"
  shows "replay (take n evs) f dest = f dest"
proof (rule replay_frame, rule ballI)
  fix e assume e: "e \<in> set (take n evs)"
  then have "e \<in> set evs" by (rule in_set_takeD)
  with assms e have "body_events url dest e" by auto
  then show "\<not> touches dest e" by (rule body_events_frame)
qed

lemma drop_trace: "trace w' = trace w @ evs \<Longrightarrow> drop (length (trace w)) (trace w') = evs"
  by simp

text \<open>
  C3. Crash safety of \<open>downloadFile\<close>. The events a run adds are a record of the run in
  time, and the filesystem at any moment of the run is the replay of a prefix of them.
  Every write goes to \<open>dest.partial\<close>. At every moment after the temporary file was
  created and before the rename, the destination path does not exist. A rename happens
  only as the last event of a run that got a response with status 200 and copied its
  whole body without error, and then the destination holds exactly the body.
\<close>

theorem download_crash_safety:
  assumes run: "downloadFile env w url dest = (r, w')"
  shows "let evs = drop (length (trace w)) (trace w'); tmp = dest @ ''.partial'' in
      trace w' = trace w @ evs \<and> fs w' = replay evs (fs w)
      \<and> (\<forall>p c. FsWrite p c \<in> set evs \<longrightarrow> p = tmp)
      \<and> (\<forall>n. FsCreate tmp \<in> set (take n evs) \<and> FsRename tmp dest \<notin> set (take n evs)
            \<longrightarrow> replay (take n evs) (fs w) dest = None)
      \<and> (\<forall>a b. FsRename a b \<in> set evs \<longrightarrow>
            r = None \<and> (\<exists>res. http_get env (trace w @ [FsCreate tmp]) url = Inr res
               \<and> StatusCode res = 200 \<and> BodyErr res = None
               \<and> evs = download_events url dest (Body res)
               \<and> fs w' dest = Some (File (concat (Body res)))))"
  using downloadFile_shape [OF run]
proof
  assume "\<exists>pre. trace w' = trace w @ pre \<and> fs w' = replay pre (fs w)
            \<and> (\<forall>e\<in>set pre. body_events url dest e)
            \<and> (pre \<noteq> [] \<longrightarrow> fs w dest = None)
            \<and> (r \<noteq> None \<or> (pre = [] \<and> fs w dest \<noteq> None))"
  then obtain pre where p: "trace w' = trace w @ pre" "fs w' = replay pre (fs w)"
     "\<forall>e\<in>set pre. body_events url dest e" "pre \<noteq> [] \<longrightarrow> fs w dest = None"
    by blast
  have ev: "drop (length (trace w)) (trace w') = pre" using p(1) by (rule drop_trace)
  have 1: "\<forall>p c. FsWrite p c \<in> set pre \<longrightarrow> p = dest @ ''.partial''"
    using p(3) by (auto simp: body_events_def)
  have 2: "replay (take n pre) (fs w) dest = None"
    if "FsCreate (dest @ ''.partial'') \<in> set (take n pre)"
       "FsRename (dest @ ''.partial'') dest \<notin> set (take n pre)" for n
  proof -
    from that(1) have "pre \<noteq> []" by auto
    with p(4) have "fs w dest = None" by simp
    moreover have "replay (take n pre) (fs w) dest = fs w dest"
      using p(3) that(2) by (intro prefix_frame [where R = "FsRename (dest @ ''.partial'') dest"]) auto
    ultimately show ?thesis by simp
  qed
  have 3: "\<forall>a b. FsRename a b \<notin> set pre"
    using p(3) by (auto simp: body_events_def)
  show ?thesis unfolding Let_def ev using p(1,2) 1 2 3 by blast
next
  assume "\<exists>res. r = None \<and> fs w dest = None
            \<and> http_get env (trace w @ [FsCreate (dest @ ''.partial'')]) url = Inr res
            \<and> StatusCode res = 200 \<and> BodyErr res = None
            \<and> trace w' = trace w @ download_events url dest (Body res)
            \<and> fs w' = replay (download_events url dest (Body res)) (fs w)"
  then obtain res where b: "r = None" "fs w dest = None"
      "http_get env (trace w @ [FsCreate (dest @ ''.partial'')]) url = Inr res"
      "StatusCode res = 200" "BodyErr res = None"
      "trace w' = trace w @ download_events url dest (Body res)"
      "fs w' = replay (download_events url dest (Body res)) (fs w)"
    by blast
  let ?evs = "download_events url dest (Body res)"
  have ev: "drop (length (trace w)) (trace w') = ?evs" using b(6) by (rule drop_trace)
  have 1: "\<forall>p c. FsWrite p c \<in> set ?evs \<longrightarrow> p = dest @ ''.partial''"
    by (auto simp: download_events_def)
  have 2: "replay (take n ?evs) (fs w) dest = None"
    if "FsRename (dest @ ''.partial'') dest \<notin> set (take n ?evs)" for n
  proof -
    have "replay (take n ?evs) (fs w) dest = fs w dest"
      using that
      by (intro prefix_frame [where R = "FsRename (dest @ ''.partial'') dest"])
         (auto dest: download_events_body)
    with b(2) show ?thesis by simp
  qed
  have 3: "fs w' dest = Some (File (concat (Body res)))"
    by (simp only: b(7) replay_download)
  show ?thesis unfolding Let_def ev using b(1,3,4,5,6,7) 1 2 3 by blast
qed

text \<open>
  A download of a body of two chunks, interrupted after the first chunk was written: the
  temporary file holds that chunk and the destination does not exist.
\<close>

theorem download_crash_safety_witness:
  "downloadFile example_env empty_world ''https://x/client.jar'' ''/mc/1.jar''
     = (None, downloaded_world)
   \<and> trace downloaded_world
       = download_events ''https://x/client.jar'' ''/mc/1.jar'' [''PK'', ''jar'']
   \<and> take 3 (download_events ''https://x/client.jar'' ''/mc/1.jar'' [''PK'', ''jar''])
       = [FsCreate ''/mc/1.jar.partial'', NetGet ''https://x/client.jar'',
          FsWrite ''/mc/1.jar.partial'' ''PK'']
   \<and> replay (take 3 (download_events ''https://x/client.jar'' ''/mc/1.jar'' [''PK'', ''jar'']))
        (fs empty_world) ''/mc/1.jar'' = None
   \<and> replay (take 3 (download_events ''https://x/client.jar'' ''/mc/1.jar'' [''PK'', ''jar'']))
        (fs empty_world) ''/mc/1.jar.partial'' = Some (File ''PK'')"
proof -
  note run = example_download
  have t: "take 3 (download_events ''https://x/client.jar'' ''/mc/1.jar'' [''PK'', ''jar''])
       = [FsCreate ''/mc/1.jar.partial'', NetGet ''https://x/client.jar'',
          FsWrite ''/mc/1.jar.partial'' ''PK'']"
    by (simp add: download_events_def)
  from download_crash_safety [OF run]
  have "\<forall>n. FsCreate ''/mc/1.jar.partial''
          \<in> set (take n (download_events ''https://x/client.jar'' ''/mc/1.jar'' [''PK'', ''jar'']))
        \<and> FsRename ''/mc/1.jar.partial'' ''/mc/1.jar''
          \<notin> set (take n (download_events ''https://x/client.jar'' ''/mc/1.jar'' [''PK'', ''jar'']))
        \<longrightarrow> replay (take n (download_events ''https://x/client.jar'' ''/mc/1.jar'' [''PK'', ''jar'']))
              (fs empty_world) ''/mc/1.jar'' = None"
    by (simp add: Let_def empty_world_def downloaded_world_def)
  then have "FsCreate ''/mc/1.jar.partial''
          \<in> set (take 3 (download_events ''https://x/client.jar'' ''/mc/1.jar'' [''PK'', ''jar'']))
        \<and> FsRename ''/mc/1.jar.partial'' ''/mc/1.jar''
          \<notin> set (take 3 (download_events ''https://x/client.jar'' ''/mc/1.jar'' [''PK'', ''jar'']))
        \<longrightarrow> replay (take 3 (download_events ''https://x/client.jar'' ''/mc/1.jar'' [''PK'', ''jar'']))
              (fs empty_world) ''/mc/1.jar'' = None"
    by (rule spec)
  then have "replay (take 3 (download_events ''https://x/client.jar'' ''/mc/1.jar'' [''PK'', ''jar'']))
        (fs empty_world) ''/mc/1.jar'' = None"
    unfolding t by simp
  moreover have "replay (take 3 (download_events ''https://x/client.jar'' ''/mc/1.jar'' [''PK'', ''jar'']))
        (fs empty_world) ''/mc/1.jar.partial'' = Some (File ''PK'')"
    unfolding t by (simp add: contents_def)
  ultimately show ?thesis using run t by (simp add: downloaded_world_def)
qed

lemma example_failed_download:
  "downloadFile example_env jar_world ''https://x/gone'' ''/mc/1.jar''
     = (Some (HttpStatus 404),
        effect (NetGet ''https://x/gone'') (effect (FsCreate ''/mc/1.jar.partial'') jar_world))"
  by (simp add: main_defs world_defs example_defs)

text \<open>
  C9. Frame property of \<open>downloadFile\<close>. No event of a run creates or writes the
  destination path; the only event that touches it is the rename of \<open>dest.partial\<close> onto it,
  which occurs only in a run that returns nil from a destination that did not exist.
  When the destination exists at the start (the skipped download) or the run returns an
  error, what is at the destination path afterwards is what was there before.
\<close>

theorem download_frame:
  assumes run: "downloadFile env w url dest = (r, w')"
  shows "let evs = drop (length (trace w)) (trace w'); tmp = dest @ ''.partial'' in
      trace w' = trace w @ evs \<and> fs w' = replay evs (fs w)
      \<and> FsCreate dest \<notin> set evs \<and> (\<forall>c. FsWrite dest c \<notin> set evs)
      \<and> (\<forall>e\<in>set evs. touches dest e \<longrightarrow> e = FsRename tmp dest)
      \<and> (FsRename tmp dest \<in> set evs \<longrightarrow> r = None \<and> fs w dest = None)
      \<and> (fs w dest \<noteq> None \<or> r \<noteq> None \<longrightarrow> fs w' dest = fs w dest)"
  using downloadFile_shape [OF run]
proof
  assume "\<exists>pre. trace w' = trace w @ pre \<and> fs w' = replay pre (fs w)
            \<and> (\<forall>e\<in>set pre. body_events url dest e)
            \<and> (pre \<noteq> [] \<longrightarrow> fs w dest = None)
            \<and> (r \<noteq> None \<or> (pre = [] \<and> fs w dest \<noteq> None))"
  then obtain pre where p: "trace w' = trace w @ pre" "fs w' = replay pre (fs w)"
     "\<forall>e\<in>set pre. body_events url dest e"
    by blast
  have ev: "drop (length (trace w)) (trace w') = pre" using p(1) by (rule drop_trace)
  have nt: "\<forall>e\<in>set pre. \<not> touches dest e"
    using p(3) by (auto dest: body_events_frame)
  then have same: "fs w' dest = fs w dest"
    unfolding p(2) by (rule replay_frame)
  have "FsCreate dest \<notin> set pre" "\<forall>c. FsWrite dest c \<notin> set pre"
    "FsRename (dest @ ''.partial'') dest \<notin> set pre"
    using nt by fastforce+
  with nt same show ?thesis unfolding Let_def ev using p(1,2) by blast
next
  assume "\<exists>res. r = None \<and> fs w dest = None
            \<and> http_get env (trace w @ [FsCreate (dest @ ''.partial'')]) url = Inr res
            \<and> StatusCode res = 200 \<and> BodyErr res = None
            \<and> trace w' = trace w @ download_events url dest (Body res)
            \<and> fs w' = replay (download_events url dest (Body res)) (fs w)"
  then obtain res where b0: "r = None" "fs w dest = None"
      "http_get env (trace w @ [FsCreate (dest @ ''.partial'')]) url = Inr res"
      "StatusCode res = 200" "BodyErr res = None"
      "trace w' = trace w @ download_events url dest (Body res)"
      "fs w' = replay (download_events url dest (Body res)) (fs w)"
    by blast
  note b = b0(1,2,6,7)
  let ?evs = "download_events url dest (Body res)"
  have ev: "drop (length (trace w)) (trace w') = ?evs" using b(3) by (rule drop_trace)
  have t: "\<forall>e\<in>set ?evs. touches dest e \<longrightarrow> e = FsRename (dest @ ''.partial'') dest"
    by (auto dest!: download_events_body body_events_frame)
  have "FsCreate dest \<notin> set ?evs" "\<forall>c. FsWrite dest c \<notin> set ?evs"
    by (auto simp: download_events_def)
  with t show ?thesis unfolding Let_def ev using b by blast
qed

text \<open>A failed download: the destination path is as before.\<close>

theorem download_frame_witness:
  "downloadFile example_env jar_world ''https://x/gone'' ''/mc/1.jar''
     = (Some (HttpStatus 404),
        effect (NetGet ''https://x/gone'') (effect (FsCreate ''/mc/1.jar.partial'') jar_world))
   \<and> fs (effect (NetGet ''https://x/gone'') (effect (FsCreate ''/mc/1.jar.partial'') jar_world))
        ''/mc/1.jar'' = fs jar_world ''/mc/1.jar''
   \<and> FsCreate ''/mc/1.jar''
        \<notin> set (drop (length (trace jar_world))
             (trace (effect (NetGet ''https://x/gone'')
                (effect (FsCreate ''/mc/1.jar.partial'') jar_world))))"
  using download_frame [OF example_failed_download] example_failed_download
  by (simp add: Let_def effect_def jar_world_def)

section \<open>main: properties\<close>

lemma fetchJSON_world: "fetchJSON env w url decode = (r, w') \<Longrightarrow> w' = effect (NetGet url) w"
  by (auto simp: fetchJSON_def http_Get_def split: sum.splits if_splits)

lemma requests_append: "requests (xs @ ys) = requests xs @ requests ys"
  by (induction xs rule: requests.induct) auto

lemma example_step_manifest:
  "step_manifest example_env empty_world
     = (Inr example_manifest,
        \<lparr>fs = (\<lambda>p. None),
         trace = [Stdout [Str ''Fetching version manifest...''], NetGet versionManifestURL]\<rparr>)"
  by (simp add: main_defs world_defs example_defs decode_defs)

lemma example_parse:
  "flag_Parse (default_flags example_env) [] = Inr (default_flags example_env)"
  "flag_Parse (default_flags example_env) [''-version=9.9.9'']
     = Inr ((default_flags example_env)\<lparr>version := ''9.9.9''\<rparr>)"
  "flag_Parse (default_flags example_env) [''-username=Steve'']
     = Inr ((default_flags example_env)\<lparr>username := ''Steve''\<rparr>)"
  "flag_Parse (default_flags example_env) [''-username'', ''Alex'']
     = Inr ((default_flags example_env)\<lparr>username := ''Alex''\<rparr>)"
  "flag_Parse (default_flags example_env) [''-bogus''] = Inl (FlagNotDefined ''bogus'')"
  by (simp_all add: flag_name_def set_string_flag_def Let_def)

lemma absent_version_main:
  fixes fl :: flags
  assumes nf: "findVersionURL manifest X = Inl VersionNotFound"
    and m: "step_manifest env w = (Inr manifest, w1)"
    and t: "target_id manifest (version fl) = X"
  shows "main env fl w = (1, eprintln [Str ''version not found in manifest:'', Str X]
                              (snd (step_resolve fl manifest w1)))"
    and "requests (drop (length (trace w)) (trace (snd (main env fl w)))) = [versionManifestURL]"
proof -
  from m have w1: "w1 = effect (NetGet versionManifestURL) (println [Str ''Fetching version manifest...''] w)"
    by (auto simp: step_manifest_def dest: fetchJSON_world)
  obtain w2 where r: "step_resolve fl manifest w1 = (Inl VersionNotFound, w2)"
     and w2: "trace w2 = trace w1 \<or> (\<exists>line. trace w2 = trace w1 @ [Stdout line])"
    using t nf by (auto simp: step_resolve_def Let_def println_def effect_def)
  show m1: "main env fl w = (1, eprintln [Str ''version not found in manifest:'', Str X]
                              (snd (step_resolve fl manifest w1)))"
    using m t r by (simp add: main_def)
  have t1: "trace w1 = trace w @ [Stdout [Str ''Fetching version manifest...''], NetGet versionManifestURL]"
    by (simp add: w1 println_def effect_def)
  show "requests (drop (length (trace w)) (trace (snd (main env fl w)))) = [versionManifestURL]"
    using w2 by (auto simp: m1 r eprintln_def effect_def t1 requests_append)
qed

text \<open>
  C4. For every manifest, of any size, and every id that is the id of none of its
  entries, \<open>findVersionURL\<close> fails with the error \<open>version not found\<close>. In the program,
  when the manifest was fetched and the id looked up (the \<open>-version\<close> flag, or the latest
  release when the flag is empty) is such an id, the run ends there: the exit code is 1,
  the last thing printed is the line on standard error that names the id, and the
  manifest request is the only HTTP request of the run, so nothing is retried.
\<close>

theorem absent_version_exits_1:
  assumes "X \<notin> set (map Id_ref (Versions manifest))"
  shows "findVersionURL manifest X = Inl VersionNotFound
     \<and> (\<forall>env args fl w w1.
          flag_Parse (default_flags env) args = Inr fl
          \<and> step_manifest env w = (Inr manifest, w1)
          \<and> target_id manifest (version fl) = X \<longrightarrow>
            fst (program env args w) = 1
            \<and> last (trace (snd (program env args w)))
                = Stderr [Str ''version not found in manifest:'', Str X]
            \<and> requests (drop (length (trace w)) (trace (snd (program env args w))))
                = [versionManifestURL])"
proof (intro conjI allI impI)
  show nf: "findVersionURL manifest X = Inl VersionNotFound"
    using assms by (rule findVersionURL_absent)
  fix env args and fl :: flags and w w1
  assume a: "flag_Parse (default_flags env) args = Inr fl
          \<and> step_manifest env w = (Inr manifest, w1)
          \<and> target_id manifest (version fl) = X"
  then have p: "program env args w = main env fl w" by (simp add: program_def)
  from a have m: "step_manifest env w = (Inr manifest, w1)"
    and t: "target_id manifest (version fl) = X" by simp_all
  note r = absent_version_main [OF nf m t]
  show "fst (program env args w) = 1" by (simp add: p r(1))
  show "last (trace (snd (program env args w)))
          = Stderr [Str ''version not found in manifest:'', Str X]"
    by (simp add: p r(1) eprintln_def effect_def)
  show "requests (drop (length (trace w)) (trace (snd (program env args w))))
          = [versionManifestURL]"
    by (simp only: p r(2))
qed

text \<open>The version 9.9.9 against the example manifest.\<close>

theorem absent_version_exits_1_witness:
  "''9.9.9'' \<notin> set (map Id_ref (Versions example_manifest))
   \<and> findVersionURL example_manifest ''9.9.9'' = Inl VersionNotFound
   \<and> fst (program example_env [''-version=9.9.9''] empty_world) = 1
   \<and> last (trace (snd (program example_env [''-version=9.9.9''] empty_world)))
       = Stderr [Str ''version not found in manifest:'', Str ''9.9.9'']
   \<and> requests (trace (snd (program example_env [''-version=9.9.9''] empty_world)))
       = [versionManifestURL]"
proof -
  have h: "''9.9.9'' \<notin> set (map Id_ref (Versions example_manifest))"
    by (simp add: example_manifest_def)
  have t: "target_id example_manifest (version ((default_flags example_env)\<lparr>version := ''9.9.9''\<rparr>))
      = ''9.9.9''"
    by (simp add: target_id_def)
  have e: "trace empty_world = []" by (simp add: empty_world_def)
  from absent_version_exits_1 [OF h] example_parse(2) example_step_manifest t
  have "findVersionURL example_manifest ''9.9.9'' = Inl VersionNotFound
     \<and> fst (program example_env [''-version=9.9.9''] empty_world) = 1
     \<and> last (trace (snd (program example_env [''-version=9.9.9''] empty_world)))
         = Stderr [Str ''version not found in manifest:'', Str ''9.9.9'']
     \<and> requests (drop (length (trace empty_world))
          (trace (snd (program example_env [''-version=9.9.9''] empty_world))))
         = [versionManifestURL]"
    by blast
  with h show ?thesis by (simp add: e)
qed

text \<open>
  C5. Resolving with an empty requested id gives the same result as resolving with the
  manifest's latest release id given explicitly: the same id is looked up, and the lookup
  gives the same URL or the same error.
\<close>

theorem empty_id_is_latest:
  fixes fl :: flags
  shows "target_id manifest [] = target_id manifest (Release (Latest manifest))
   \<and> fst (step_resolve (fl\<lparr>version := []\<rparr>) manifest w)
       = fst (step_resolve (fl\<lparr>version := Release (Latest manifest)\<rparr>) manifest w')"
  by (simp add: target_id_def step_resolve_def Let_def)

text \<open>In the example manifest both resolve 1.20.2 to its URL.\<close>

theorem empty_id_is_latest_witness:
  "target_id example_manifest [] = ''1.20.2''
   \<and> fst (step_resolve (example_flags\<lparr>version := []\<rparr>) example_manifest empty_world)
       = Inr ''https://x/1.20.2.json''
   \<and> fst (step_resolve (example_flags\<lparr>version := ''1.20.2''\<rparr>) example_manifest empty_world)
       = Inr ''https://x/1.20.2.json''"
  using empty_id_is_latest [of example_manifest example_flags empty_world empty_world]
  by (simp add: main_defs example_defs)

lemma main_exit_code:
  "fst (main env fl w) \<in> {0, 1}
   \<and> (fst (main env fl w) = 0 \<longleftrightarrow>
       (\<exists>manifest w1 vurl w2 vjson w3 w4 w5 w6.
          step_manifest env w = (Inr manifest, w1)
        \<and> step_resolve fl manifest w1 = (Inr vurl, w2)
        \<and> step_describe env (target_id manifest (version fl)) vurl w2 = (Inr vjson, w3)
        \<and> step_mkdir env fl (target_id manifest (version fl)) w3 = (None, w4)
        \<and> step_download env fl (target_id manifest (version fl)) vjson w4 = (None, w5)
        \<and> step_run env fl (target_id manifest (version fl)) w5 = (None, w6)))
   \<and> (fst (main env fl w) = 1 \<longleftrightarrow>
       (\<exists>line. last (trace (snd (main env fl w))) = Stderr line))"
  by (auto simp: main_def Let_def println_def eprintln_def effect_def
           split: prod.splits sum.splits option.splits)

lemma example_program:
  "program example_env [''-version=9.9.9''] empty_world
     = (1, \<lparr>fs = (\<lambda>p. None),
            trace = [Stdout [Str ''Fetching version manifest...''], NetGet versionManifestURL,
                     Stderr [Str ''version not found in manifest:'', Str ''9.9.9'']]\<rparr>)"
proof -
  have "program example_env [''-version=9.9.9''] empty_world
      = main example_env ((default_flags example_env)\<lparr>version := ''9.9.9''\<rparr>) empty_world"
    by (simp only: program_def example_parse sum.case)
  also have "\<dots> = (1, eprintln [Str ''version not found in manifest:'', Str ''9.9.9'']
       \<lparr>fs = (\<lambda>p. None),
        trace = [Stdout [Str ''Fetching version manifest...''], NetGet versionManifestURL]\<rparr>)"
    by (simp add: main_def example_step_manifest step_resolve_def target_id_def
          findVersionURL_def example_manifest_def)
  finally show ?thesis by (simp add: eprintln_def effect_def)
qed

text \<open>
  C6, as amended. For every command line that \<open>flag.Parse\<close> accepts, the exit code is 0
  or 1; it is 0 exactly when every step succeeds (manifest fetch, resolution, descriptor
  fetch, directory creation, download, which includes the skipped download, and, with
  \<open>-run-offline\<close>, the launch), and it is 1 exactly when the run ended by printing an
  error line on standard error, the same code for each kind of failure. For a command
  line that \<open>flag.Parse\<close> rejects the process ends before any step with code 2, or with
  code 0 when help was asked for, having sent no request and changed no file.
\<close>

theorem exit_code_contract:
  "(\<forall>fl. flag_Parse (default_flags env) args = Inr fl \<longrightarrow>
      fst (program env args w) \<in> {0, 1}
      \<and> (fst (program env args w) = 0 \<longleftrightarrow>
          (\<exists>manifest w1 vurl w2 vjson w3 w4 w5 w6.
             step_manifest env w = (Inr manifest, w1)
           \<and> step_resolve fl manifest w1 = (Inr vurl, w2)
           \<and> step_describe env (target_id manifest (version fl)) vurl w2 = (Inr vjson, w3)
           \<and> step_mkdir env fl (target_id manifest (version fl)) w3 = (None, w4)
           \<and> step_download env fl (target_id manifest (version fl)) vjson w4 = (None, w5)
           \<and> step_run env fl (target_id manifest (version fl)) w5 = (None, w6)))
      \<and> (fst (program env args w) = 1 \<longleftrightarrow>
          (\<exists>line. last (trace (snd (program env args w))) = Stderr line)))
   \<and> (\<forall>err. flag_Parse (default_flags env) args = Inl err \<longrightarrow>
      fst (program env args w) = (if err = ErrHelp then 0 else 2)
      \<and> fs (snd (program env args w)) = fs w
      \<and> requests (trace (snd (program env args w))) = requests (trace w))"
proof -
  have A: "fst (program env args w) \<in> {0, 1}
      \<and> (fst (program env args w) = 0 \<longleftrightarrow>
          (\<exists>manifest w1 vurl w2 vjson w3 w4 w5 w6.
             step_manifest env w = (Inr manifest, w1)
           \<and> step_resolve fl manifest w1 = (Inr vurl, w2)
           \<and> step_describe env (target_id manifest (version fl)) vurl w2 = (Inr vjson, w3)
           \<and> step_mkdir env fl (target_id manifest (version fl)) w3 = (None, w4)
           \<and> step_download env fl (target_id manifest (version fl)) vjson w4 = (None, w5)
           \<and> step_run env fl (target_id manifest (version fl)) w5 = (None, w6)))
      \<and> (fst (program env args w) = 1 \<longleftrightarrow>
          (\<exists>line. last (trace (snd (program env args w))) = Stderr line))"
    if "flag_Parse (default_flags env) args = Inr fl" for fl
  proof -
    from that have p: "program env args w = main env fl w" by (simp add: program_def)
    show ?thesis unfolding p by (rule main_exit_code)
  qed
  have B: "fst (program env args w) = (if err = ErrHelp then 0 else 2)
      \<and> fs (snd (program env args w)) = fs w
      \<and> requests (trace (snd (program env args w))) = requests (trace w)"
    if "flag_Parse (default_flags env) args = Inl err" for err
    using that by (simp add: program_def eprintln_def effect_def requests_append)
  from A B show ?thesis by blast
qed

text \<open>A run that fails in resolution, and a command line with an unknown flag.\<close>

theorem exit_code_contract_witness:
  "flag_Parse (default_flags example_env) [''-version=9.9.9'']
     = Inr ((default_flags example_env)\<lparr>version := ''9.9.9''\<rparr>)
   \<and> fst (program example_env [''-version=9.9.9''] empty_world) = 1
   \<and> (\<exists>line. last (trace (snd (program example_env [''-version=9.9.9''] empty_world)))
         = Stderr line)
   \<and> flag_Parse (default_flags example_env) [''-bogus''] = Inl (FlagNotDefined ''bogus'')
   \<and> fs (snd (program example_env [''-bogus''] empty_world)) = fs empty_world"
proof -
  note c1 = exit_code_contract [of example_env "[''-version=9.9.9'']" empty_world]
  note c2 = exit_code_contract [of example_env "[''-bogus'']" empty_world]
  have 1: "fst (program example_env [''-version=9.9.9''] empty_world) = 1"
    by (simp add: example_program)
  from c1 example_parse(2) have
    "fst (program example_env [''-version=9.9.9''] empty_world) = 1 \<longleftrightarrow>
       (\<exists>line. last (trace (snd (program example_env [''-version=9.9.9''] empty_world)))
          = Stderr line)"
    by blast
  with 1 have 2: "\<exists>line. last (trace (snd (program example_env [''-version=9.9.9''] empty_world)))
          = Stderr line"
    by blast
  from c2 example_parse(5)
  have 3: "fs (snd (program example_env [''-bogus''] empty_world)) = fs empty_world"
    by blast
  from 1 2 3 example_parse(2,5) show ?thesis by blast
qed

text \<open>C6 as stated fails: a command line with an unknown flag ends the process with code 2.\<close>

theorem exit_code_2_on_unknown_flag:
  "fst (program example_env [''-bogus''] empty_world) = 2"
proof -
  have "program example_env [''-bogus''] empty_world
      = (2, eprintln [Usage] (eprintln [Err (FlagNotDefined ''bogus'')] empty_world))"
    by (simp only: program_def example_parse sum.case) simp
  then show ?thesis by simp
qed

lemma steps_ignore_username:
  "step_resolve (fl\<lparr>username := u\<rparr>) manifest w = step_resolve fl manifest w"
  "step_mkdir env (fl\<lparr>username := u\<rparr>) vid w = step_mkdir env fl vid w"
  "step_download env (fl\<lparr>username := u\<rparr>) vid vjson w = step_download env fl vid vjson w"
  "step_run env (fl\<lparr>username := u\<rparr>) vid w = step_run env fl vid w"
  "versionDir env (fl\<lparr>username := u\<rparr>) vid = versionDir env fl vid"
  by (simp_all add: step_resolve_def step_mkdir_def step_download_def step_run_def
        versionDir_def jarPath_def Let_def)

text \<open>
  C8. The \<open>-username\<close> flag is accepted and unused. Two command lines whose parsed flags
  differ only in the username give the same run: the same exit code and the same world
  afterwards, that is, the same files, requests, processes started and lines printed.
  The same holds of \<open>main\<close> on any two flag records that differ only in the username.
\<close>

theorem username_unused:
  "(flag_Parse (default_flags env) args1 = Inr fl
      \<and> flag_Parse (default_flags env) args2 = Inr (fl\<lparr>username := u\<rparr>)
      \<longrightarrow> program env args1 w = program env args2 w)
   \<and> main env (fl\<lparr>username := u\<rparr>) w = main env fl w"
  by (simp add: program_def main_def steps_ignore_username
        cong: prod.case_cong sum.case_cong option.case_cong)

text \<open>Two usernames, given in the two forms the flag accepts.\<close>

theorem username_unused_witness:
  "flag_Parse (default_flags example_env) [''-username=Steve'']
     = Inr ((default_flags example_env)\<lparr>username := ''Steve''\<rparr>)
   \<and> flag_Parse (default_flags example_env) [''-username'', ''Alex'']
     = Inr ((default_flags example_env)\<lparr>username := ''Alex''\<rparr>)
   \<and> program example_env [''-username=Steve''] empty_world
     = program example_env [''-username'', ''Alex''] empty_world"
proof -
  have a: "flag_Parse (default_flags example_env) [''-username'', ''Alex'']
     = Inr ((default_flags example_env)\<lparr>username := ''Steve''\<rparr>\<lparr>username := ''Alex''\<rparr>)"
    by (simp only: example_parse) simp
  from username_unused [where env = example_env and ?args1.0 = "[''-username=Steve'']"
      and ?args2.0 = "[''-username'', ''Alex'']"
      and fl = "(default_flags example_env)\<lparr>username := ''Steve''\<rparr>" and u = "''Alex''"
      and w = empty_world] example_parse(3) a
  have "program example_env [''-username=Steve''] empty_world
     = program example_env [''-username'', ''Alex''] empty_world"
    by blast
  with example_parse(3,4) show ?thesis by blast
qed

section \<open>Decoding: properties\<close>

text \<open>A decoder fails exactly on a value that does not fit the declared types.\<close>

lemma store_ok: "isl (store r put) = isl r"
  by (cases r) (simp_all add: store_def)

lemma dec_string_ok: "isl (dec_string j cur) = (\<not> fits_string j)"
  by (cases j) (simp_all add: dec_string_def fits_string_def)

lemma dec_int_ok: "isl (dec_int j cur) = (\<not> fits_int j)"
  by (cases j) (simp_all add: dec_int_def fits_int_def)

lemma dec_members_ok:
  assumes "\<And>k j cur. isl (field k j cur) = (\<not> fits k j)"
  shows "isl (dec_members field kvs cur) = (\<not> fits_members fits kvs)"
proof (induction kvs arbitrary: cur)
  case Nil
  show ?case by simp
next
  case (Cons kv kvs)
  obtain k j where kv: "kv = (k, j)" by (cases kv)
  show ?case
  proof (cases "field (foldName k) j cur")
    case (Inl e)
    with assms [of "foldName k" j cur] show ?thesis by (simp add: kv)
  next
    case (Inr c)
    with assms [of "foldName k" j cur] Cons.IH [of c] show ?thesis by (simp add: kv)
  qed
qed

lemma dec_struct_ok:
  assumes "\<And>k j cur. isl (field k j cur) = (\<not> fits k j)"
  shows "isl (dec_struct field j cur) = (\<not> fits_struct fits j)"
  using dec_members_ok [of field fits, OF assms]
  by (cases j) (simp_all add: dec_struct_def fits_struct_def)

lemma dec_elems_ok:
  assumes "\<And>j cur. isl (elem j cur) = (\<not> fits j)"
  shows "isl (dec_elems elem zero js old) = (\<not> fits_elems fits js)"
proof (induction js arbitrary: old)
  case Nil
  show ?case by simp
next
  case (Cons j js)
  let ?cur = "case old of [] \<Rightarrow> zero | x # xs \<Rightarrow> x"
  show ?case
  proof (cases "elem j ?cur")
    case (Inl e)
    with assms [of j ?cur] show ?thesis by simp
  next
    case (Inr y)
    with assms [of j ?cur] Cons.IH [of "tl old"] show ?thesis by (simp add: store_ok)
  qed
qed

lemma dec_slice_ok:
  assumes "\<And>j cur. isl (elem j cur) = (\<not> fits j)"
  shows "isl (dec_slice elem zero j cur) = (\<not> fits_slice fits j)"
  using dec_elems_ok [of elem fits, OF assms]
  by (cases j) (simp_all add: dec_slice_def fits_slice_def store_ok)

lemma field_VersionRef_ok: "isl (field_VersionRef k j cur) = (\<not> fits_VersionRef k j)"
  by (simp add: field_VersionRef_def fits_VersionRef_def store_ok dec_string_ok)

lemma field_Latest_ok: "isl (field_Latest k j cur) = (\<not> fits_Latest k j)"
  by (simp add: field_Latest_def fits_Latest_def store_ok dec_string_ok)

lemma field_VersionManifest_ok:
  "isl (field_VersionManifest k j cur) = (\<not> fits_VersionManifest k j)"
  by (simp add: field_VersionManifest_def fits_VersionManifest_def store_ok
        dec_struct_ok [of field_Latest fits_Latest, OF field_Latest_ok]
        dec_slice_ok [of "dec_struct field_VersionRef" "fits_struct fits_VersionRef",
           OF dec_struct_ok [of field_VersionRef fits_VersionRef, OF field_VersionRef_ok]])

lemma decode_VersionManifest_ok:
  "isl (decode_VersionManifest j) = (\<not> fits_struct fits_VersionManifest j)"
  by (simp add: decode_VersionManifest_def store_ok
        dec_struct_ok [of field_VersionManifest fits_VersionManifest, OF field_VersionManifest_ok])

lemma field_Client_ok: "isl (field_Client k j cur) = (\<not> fits_Client k j)"
  by (simp add: field_Client_def fits_Client_def store_ok dec_string_ok dec_int_ok)

lemma field_Downloads_ok: "isl (field_Downloads k j cur) = (\<not> fits_Downloads k j)"
  by (simp add: field_Downloads_def fits_Downloads_def store_ok
        dec_struct_ok [of field_Client fits_Client, OF field_Client_ok])

lemma field_VersionJSON_ok: "isl (field_VersionJSON k j cur) = (\<not> fits_VersionJSON k j)"
  by (simp add: field_VersionJSON_def fits_VersionJSON_def store_ok dec_string_ok
        dec_struct_ok [of field_Downloads fits_Downloads, OF field_Downloads_ok])

lemma decode_VersionJSON_ok:
  "isl (decode_VersionJSON j) = (\<not> fits_struct fits_VersionJSON j)"
  by (simp add: decode_VersionJSON_def
        dec_struct_ok [of field_VersionJSON fits_VersionJSON, OF field_VersionJSON_ok])

lemma Inr_iff_not_isl: "(\<exists>x. r = Inr x) = (\<not> isl r)"
  by (cases r) simp_all

text \<open>A key that does not occur in the object leaves its field at the zero value.\<close>

lemma dec_members_absent:
  assumes frame: "\<And>k j cur c. k \<noteq> name \<Longrightarrow> field k j cur = Inr c \<Longrightarrow> g c = g cur"
    and "name \<notin> set (map (\<lambda>kv. foldName (fst kv)) kvs)"
    and "dec_members field kvs cur = Inr c"
  shows "g c = g cur"
  using assms(2,3)
proof (induction kvs arbitrary: cur)
  case Nil
  then show ?case by simp
next
  case (Cons kv kvs)
  obtain k j where kv: "kv = (k, j)" by (cases kv)
  from Cons.prems(1) have k: "foldName k \<noteq> name" and rest: "name \<notin> set (map (\<lambda>kv. foldName (fst kv)) kvs)"
    by (auto simp: kv)
  from Cons.prems(2) obtain c1 where c1: "field (foldName k) j cur = Inr c1"
      and c: "dec_members field kvs c1 = Inr c"
    by (auto simp: kv split: sum.splits)
  from frame [OF k c1] Cons.IH [OF rest c] show ?case by simp
qed

lemma dec_struct_absent:
  assumes frame: "\<And>k j cur c. k \<noteq> name \<Longrightarrow> field k j cur = Inr c \<Longrightarrow> g c = g cur"
    and "name \<notin> set (keys j)"
    and "dec_struct field j cur = Inr c"
  shows "g c = g cur"
proof (cases j)
  case (JObject kvs)
  with assms(2,3) show ?thesis
    by (intro dec_members_absent [of name field g kvs cur c, OF frame])
       (simp_all add: keys_def dec_struct_def)
qed (use assms(3) in \<open>simp_all add: dec_struct_def\<close>)

lemma store_Inr: "store r put = Inr c \<Longrightarrow> \<exists>x. r = Inr x \<and> c = put x"
  by (cases r) (simp_all add: store_def)

lemma manifest_absent:
  assumes "decode_VersionManifest j = Inr m"
  shows "(''versions'' \<notin> set (keys j) \<longrightarrow> Versions m = [])
       \<and> (''latest'' \<notin> set (keys j) \<longrightarrow> Latest m = zero_Latest)"
proof -
  from assms obtain c where c: "dec_struct field_VersionManifest j (zero_Latest, ([], 0)) = Inr c"
     and m: "m = \<lparr>Latest = fst c, Versions = slice_elems (snd c)\<rparr>"
    by (auto simp: decode_VersionManifest_def dest: store_Inr)
  have "snd c = snd (zero_Latest, ([]::VersionRef list, 0::nat))" if "''versions'' \<notin> set (keys j)"
    by (rule dec_struct_absent [of "''versions''" field_VersionManifest snd, OF _ that c])
       (auto simp: field_VersionManifest_def dest!: store_Inr split: if_splits)
  moreover have "fst c = fst (zero_Latest, ([]::VersionRef list, 0::nat))" if "''latest'' \<notin> set (keys j)"
    by (rule dec_struct_absent [of "''latest''" field_VersionManifest fst, OF _ that c])
       (auto simp: field_VersionManifest_def dest!: store_Inr split: if_splits)
  ultimately show ?thesis by (auto simp: m slice_elems_def)
qed

lemma descriptor_absent:
  assumes "decode_VersionJSON j = Inr v"
  shows "(''downloads'' \<notin> set (keys j) \<longrightarrow> Downloads v = \<lparr>Client = zero_Client\<rparr>)
       \<and> (''id'' \<notin> set (keys j) \<longrightarrow> Id_json v = [])
       \<and> (''assets'' \<notin> set (keys j) \<longrightarrow> Assets v = [])"
proof -
  from assms have c: "dec_struct field_VersionJSON j zero_VersionJSON = Inr v"
    by (simp add: decode_VersionJSON_def)
  have "Downloads v = Downloads zero_VersionJSON" if "''downloads'' \<notin> set (keys j)"
    by (rule dec_struct_absent [of "''downloads''" field_VersionJSON Downloads, OF _ that c])
       (auto simp: field_VersionJSON_def dest!: store_Inr split: if_splits)
  moreover have "Id_json v = Id_json zero_VersionJSON" if "''id'' \<notin> set (keys j)"
    by (rule dec_struct_absent [of "''id''" field_VersionJSON Id_json, OF _ that c])
       (auto simp: field_VersionJSON_def dest!: store_Inr split: if_splits)
  moreover have "Assets v = Assets zero_VersionJSON" if "''assets'' \<notin> set (keys j)"
    by (rule dec_struct_absent [of "''assets''" field_VersionJSON Assets, OF _ that c])
       (auto simp: field_VersionJSON_def dest!: store_Inr split: if_splits)
  ultimately show ?thesis by (auto simp: zero_VersionJSON_def)
qed

text \<open>The only error of a decoder is the type error.\<close>

lemma store_err: "store r put = Inl e \<Longrightarrow> r = Inl e"
  by (cases r) (simp_all add: store_def)

lemma dec_string_err: "dec_string j cur = Inl e \<Longrightarrow> e = UnmarshalTypeError"
  by (cases j) (simp_all add: dec_string_def)

lemma dec_int_err: "dec_int j cur = Inl e \<Longrightarrow> e = UnmarshalTypeError"
  by (cases j) (simp_all add: dec_int_def split: if_splits)

lemma dec_members_err:
  assumes "\<And>k j cur e. field k j cur = Inl e \<Longrightarrow> e = UnmarshalTypeError"
  shows "dec_members field kvs cur = Inl e \<Longrightarrow> e = UnmarshalTypeError"
proof (induction kvs arbitrary: cur)
  case Nil
  then show ?case by simp
next
  case (Cons kv kvs)
  obtain k j where kv: "kv = (k, j)" by (cases kv)
  show ?case
  proof (cases "field (foldName k) j cur")
    case (Inl e')
    with Cons.prems have "e = e'" by (simp add: kv)
    with assms [OF Inl] show ?thesis by simp
  next
    case (Inr c)
    with Cons.prems have "dec_members field kvs c = Inl e" by (simp add: kv)
    then show ?thesis by (rule Cons.IH)
  qed
qed

lemma dec_struct_err:
  assumes "\<And>k j cur e. field k j cur = Inl e \<Longrightarrow> e = UnmarshalTypeError"
  shows "dec_struct field j cur = Inl e \<Longrightarrow> e = UnmarshalTypeError"
  using dec_members_err [of field _ cur e, OF assms]
  by (cases j) (auto simp: dec_struct_def)

lemma dec_elems_err:
  assumes "\<And>j cur e. elem j cur = Inl e \<Longrightarrow> e = UnmarshalTypeError"
  shows "dec_elems elem zero js old = Inl e \<Longrightarrow> e = UnmarshalTypeError"
proof (induction js arbitrary: old)
  case Nil
  then show ?case by simp
next
  case (Cons j js)
  let ?cur = "case old of [] \<Rightarrow> zero | x # xs \<Rightarrow> x"
  show ?case
  proof (cases "elem j ?cur")
    case (Inl e')
    with Cons.prems have "e = e'" by simp
    with assms [OF Inl] show ?thesis by simp
  next
    case (Inr y)
    with Cons.prems have "dec_elems elem zero js (tl old) = Inl e"
      by (auto dest: store_err)
    then show ?thesis by (rule Cons.IH)
  qed
qed

lemma dec_slice_err:
  assumes "\<And>j cur e. elem j cur = Inl e \<Longrightarrow> e = UnmarshalTypeError"
  shows "dec_slice elem zero j cur = Inl e \<Longrightarrow> e = UnmarshalTypeError"
  using dec_elems_err [of elem zero _ "fst cur" e, OF assms]
  by (cases j) (auto simp: dec_slice_def dest: store_err split: if_splits)

lemma field_VersionRef_err: "field_VersionRef k j cur = Inl e \<Longrightarrow> e = UnmarshalTypeError"
  by (auto simp: field_VersionRef_def dest!: store_err dec_string_err split: if_splits)

lemma field_Latest_err: "field_Latest k j cur = Inl e \<Longrightarrow> e = UnmarshalTypeError"
  by (auto simp: field_Latest_def dest!: store_err dec_string_err split: if_splits)

lemma struct_Latest_err:
  assumes "dec_struct field_Latest j cur = Inl e"
  shows "e = UnmarshalTypeError"
  using field_Latest_err assms by (rule dec_struct_err)

lemma struct_VersionRef_err:
  assumes "dec_struct field_VersionRef j cur = Inl e"
  shows "e = UnmarshalTypeError"
  using field_VersionRef_err assms by (rule dec_struct_err)

lemma slice_VersionRef_err:
  assumes "dec_slice (dec_struct field_VersionRef) zero j cur = Inl e"
  shows "e = UnmarshalTypeError"
  using struct_VersionRef_err assms by (rule dec_slice_err)

lemma field_VersionManifest_err:
  "field_VersionManifest k j cur = Inl e \<Longrightarrow> e = UnmarshalTypeError"
  by (auto simp: field_VersionManifest_def split: if_splits
        dest!: store_err dest: struct_Latest_err slice_VersionRef_err)

lemma decode_VersionManifest_err:
  assumes "decode_VersionManifest j = Inl e"
  shows "e = UnmarshalTypeError"
proof -
  from assms have "dec_struct field_VersionManifest j (zero_Latest, ([], 0)) = Inl e"
    by (auto simp: decode_VersionManifest_def dest: store_err)
  with field_VersionManifest_err show ?thesis by (rule dec_struct_err)
qed

lemma field_Client_err: "field_Client k j cur = Inl e \<Longrightarrow> e = UnmarshalTypeError"
  by (auto simp: field_Client_def dest!: store_err dest: dec_string_err dec_int_err
        split: if_splits)

lemma struct_Client_err:
  assumes "dec_struct field_Client j cur = Inl e"
  shows "e = UnmarshalTypeError"
  using field_Client_err assms by (rule dec_struct_err)

lemma field_Downloads_err: "field_Downloads k j cur = Inl e \<Longrightarrow> e = UnmarshalTypeError"
  by (auto simp: field_Downloads_def split: if_splits dest!: store_err
        dest: struct_Client_err)

lemma struct_Downloads_err:
  assumes "dec_struct field_Downloads j cur = Inl e"
  shows "e = UnmarshalTypeError"
  using field_Downloads_err assms by (rule dec_struct_err)

lemma field_VersionJSON_err: "field_VersionJSON k j cur = Inl e \<Longrightarrow> e = UnmarshalTypeError"
  by (auto simp: field_VersionJSON_def split: if_splits dest!: store_err
        dest: dec_string_err struct_Downloads_err)

lemma decode_VersionJSON_err:
  assumes "decode_VersionJSON j = Inl e"
  shows "e = UnmarshalTypeError"
proof -
  from assms have "dec_struct field_VersionJSON j zero_VersionJSON = Inl e"
    by (simp add: decode_VersionJSON_def)
  with field_VersionJSON_err show ?thesis by (rule dec_struct_err)
qed

lemma misfit_is_type_error:
  assumes "isl r" and "\<And>e. r = Inl e \<Longrightarrow> e = UnmarshalTypeError"
  shows "r = Inl UnmarshalTypeError"
  using assms by (cases r) auto

lemma fetchJSON_decodes:
  assumes "http_Get env w url = (Inr res, w1)" and "StatusCode res = 200"
    and "json_read env res = Inr j"
  shows "fetchJSON env w url decode = (decode j, w1)"
  using assms by (simp add: fetchJSON_def)

lemma fetchJSON_malformed:
  assumes "http_Get env w url = (Inr res, w1)" and "StatusCode res = 200"
    and "json_read env res = Inl err"
  shows "fetchJSON env w url decode = (Inl err, w1)"
  using assms by (simp add: fetchJSON_def)

lemma decoded_well_formed:
  "((\<exists>m. (decode_VersionManifest j, w1) = (Inr m, w1))
            \<longleftrightarrow> fits_struct fits_VersionManifest j)
       \<and> (\<not> fits_struct fits_VersionManifest j \<longrightarrow>
            (decode_VersionManifest j, w1) = (Inl UnmarshalTypeError, w1))
       \<and> ((\<exists>v. (decode_VersionJSON j, w1) = (Inr v, w1))
            \<longleftrightarrow> fits_struct fits_VersionJSON j)
       \<and> (\<not> fits_struct fits_VersionJSON j \<longrightarrow>
            (decode_VersionJSON j, w1) = (Inl UnmarshalTypeError, w1))
       \<and> (\<forall>m. (decode_VersionManifest j, w1) = (Inr m, w1) \<longrightarrow>
             (''versions'' \<notin> set (keys j) \<longrightarrow> Versions m = [])
           \<and> (''latest'' \<notin> set (keys j) \<longrightarrow> Latest m = \<lparr>Release = [], Snapshot = []\<rparr>))
       \<and> (\<forall>v. (decode_VersionJSON j, w1) = (Inr v, w1) \<longrightarrow>
             (''downloads'' \<notin> set (keys j) \<longrightarrow> Url_client (Client (Downloads v)) = [])
           \<and> (''id'' \<notin> set (keys j) \<longrightarrow> Id_json v = [])
           \<and> (''assets'' \<notin> set (keys j) \<longrightarrow> Assets v = []))"
proof -
  have a: "decode_VersionManifest j = Inl UnmarshalTypeError"
    if "\<not> fits_struct fits_VersionManifest j"
    using that decode_VersionManifest_err [of j]
    by (intro misfit_is_type_error) (simp_all add: decode_VersionManifest_ok)
  have b: "decode_VersionJSON j = Inl UnmarshalTypeError"
    if "\<not> fits_struct fits_VersionJSON j"
    using that decode_VersionJSON_err [of j]
    by (intro misfit_is_type_error) (simp_all add: decode_VersionJSON_ok)
  show ?thesis
    using manifest_absent [of j] descriptor_absent [of j] a b
      decode_VersionManifest_ok [of j] decode_VersionJSON_ok [of j]
    by (simp add: Inr_iff_not_isl zero_Latest_def zero_Client_def)
qed

lemma example_fetch:
  "http_Get example_env empty_world versionManifestURL
     = (Inr \<lparr>StatusCode = 200, Body = [manifest_text], BodyErr = None\<rparr>,
        effect (NetGet versionManifestURL) empty_world)"
  "json_read example_env \<lparr>StatusCode = 200, Body = [manifest_text], BodyErr = None\<rparr>
     = Inr manifest_json"
  "http_Get example_env empty_world ''https://x/client.jar''
     = (Inr \<lparr>StatusCode = 200, Body = [''PK'', ''jar''], BodyErr = None\<rparr>,
        effect (NetGet ''https://x/client.jar'') empty_world)"
  "json_read example_env \<lparr>StatusCode = 200, Body = [''PK'', ''jar''], BodyErr = None\<rparr>
     = Inl SyntaxError"
  by (simp_all add: http_Get_def example_env_def example_get_def example_read_def
        versionManifestURL_def manifest_text_def descriptor_text_def mistyped_text_def)

text \<open>
  C10, as amended. In a response with status 200, a body that is not syntactically
  well-formed JSON makes decoding fail, as a manifest and as a version descriptor alike,
  with the error of the reader. A well-formed body decodes successfully exactly when its
  value fits the declared types, and fails with a type error otherwise. A value fits a
  struct when it is \<open>null\<close> or an object in which every member whose key names a declared
  field, up to case, holds a value that fits the field; members with other keys are
  ignored. What fits a string field (\<open>id\<close>, \<open>url\<close>, \<open>release\<close>, \<open>snapshot\<close>, \<open>assets\<close>,
  \<open>sha1\<close>) is \<open>null\<close> or a string; what fits \<open>size\<close> is \<open>null\<close> or an integer literal,
  without fraction or exponent, from \<open>-2^63\<close> to \<open>2^63 - 1\<close>; what fits \<open>latest\<close>,
  \<open>downloads\<close> and \<open>client\<close> is what fits their structs; what fits \<open>versions\<close> is \<open>null\<close>
  or an array whose elements fit the struct of an entry. Absent fields never make
  decoding fail and keep their zero values: without \<open>versions\<close> the versions list is
  empty, without \<open>latest\<close> both latest ids are empty, without \<open>downloads\<close> the download URL
  is empty, without \<open>id\<close> or \<open>assets\<close> those are empty.
\<close>

theorem decode_fails_on_type_mismatch_only:
  assumes "http_Get env w url = (Inr res, w1)" and "StatusCode res = 200"
  shows "(\<forall>err. json_read env res = Inl err \<longrightarrow>
            fetchJSON env w url decode_VersionManifest = (Inl err, w1)
          \<and> fetchJSON env w url decode_VersionJSON = (Inl err, w1))
       \<and> (\<forall>j. json_read env res = Inr j \<longrightarrow>
           ((\<exists>m. fetchJSON env w url decode_VersionManifest = (Inr m, w1))
              \<longleftrightarrow> fits_struct fits_VersionManifest j)
         \<and> (\<not> fits_struct fits_VersionManifest j \<longrightarrow>
              fetchJSON env w url decode_VersionManifest = (Inl UnmarshalTypeError, w1))
         \<and> ((\<exists>v. fetchJSON env w url decode_VersionJSON = (Inr v, w1))
              \<longleftrightarrow> fits_struct fits_VersionJSON j)
         \<and> (\<not> fits_struct fits_VersionJSON j \<longrightarrow>
              fetchJSON env w url decode_VersionJSON = (Inl UnmarshalTypeError, w1))
         \<and> (\<forall>m. fetchJSON env w url decode_VersionManifest = (Inr m, w1) \<longrightarrow>
               (''versions'' \<notin> set (keys j) \<longrightarrow> Versions m = [])
             \<and> (''latest'' \<notin> set (keys j) \<longrightarrow> Latest m = \<lparr>Release = [], Snapshot = []\<rparr>))
         \<and> (\<forall>v. fetchJSON env w url decode_VersionJSON = (Inr v, w1) \<longrightarrow>
               (''downloads'' \<notin> set (keys j) \<longrightarrow> Url_client (Client (Downloads v)) = [])
             \<and> (''id'' \<notin> set (keys j) \<longrightarrow> Id_json v = [])
             \<and> (''assets'' \<notin> set (keys j) \<longrightarrow> Assets v = [])))"
proof -
  have A: "fetchJSON env w url decode_VersionManifest = (Inl err, w1)
          \<and> fetchJSON env w url decode_VersionJSON = (Inl err, w1)"
    if "json_read env res = Inl err" for err
    using assms that by (simp add: fetchJSON_malformed)
  have B: "((\<exists>m. fetchJSON env w url decode_VersionManifest = (Inr m, w1))
              \<longleftrightarrow> fits_struct fits_VersionManifest j)
         \<and> (\<not> fits_struct fits_VersionManifest j \<longrightarrow>
              fetchJSON env w url decode_VersionManifest = (Inl UnmarshalTypeError, w1))
         \<and> ((\<exists>v. fetchJSON env w url decode_VersionJSON = (Inr v, w1))
              \<longleftrightarrow> fits_struct fits_VersionJSON j)
         \<and> (\<not> fits_struct fits_VersionJSON j \<longrightarrow>
              fetchJSON env w url decode_VersionJSON = (Inl UnmarshalTypeError, w1))
         \<and> (\<forall>m. fetchJSON env w url decode_VersionManifest = (Inr m, w1) \<longrightarrow>
               (''versions'' \<notin> set (keys j) \<longrightarrow> Versions m = [])
             \<and> (''latest'' \<notin> set (keys j) \<longrightarrow> Latest m = \<lparr>Release = [], Snapshot = []\<rparr>))
         \<and> (\<forall>v. fetchJSON env w url decode_VersionJSON = (Inr v, w1) \<longrightarrow>
               (''downloads'' \<notin> set (keys j) \<longrightarrow> Url_client (Client (Downloads v)) = [])
             \<and> (''id'' \<notin> set (keys j) \<longrightarrow> Id_json v = [])
             \<and> (''assets'' \<notin> set (keys j) \<longrightarrow> Assets v = []))"
    if j: "json_read env res = Inr j" for j
  proof -
    have 1: "fetchJSON env w url decode_VersionManifest = (decode_VersionManifest j, w1)"
      and 2: "fetchJSON env w url decode_VersionJSON = (decode_VersionJSON j, w1)"
      using assms j by (rule fetchJSON_decodes)+
    show ?thesis unfolding 1 2 by (rule decoded_well_formed)
  qed
  from A B show ?thesis by blast
qed

text \<open>
  The example manifest decodes as a manifest; decoded as a version descriptor, of whose
  fields it has none, it gives a descriptor with an empty id. The bytes of the jar are
  not JSON, and decoding them fails with the error of the reader.
\<close>

theorem decode_fails_on_type_mismatch_only_witness:
  "http_Get example_env empty_world versionManifestURL
     = (Inr \<lparr>StatusCode = 200, Body = [manifest_text], BodyErr = None\<rparr>,
        effect (NetGet versionManifestURL) empty_world)
   \<and> json_read example_env \<lparr>StatusCode = 200, Body = [manifest_text], BodyErr = None\<rparr>
       = Inr manifest_json
   \<and> fits_struct fits_VersionManifest manifest_json
   \<and> fetchJSON example_env empty_world versionManifestURL decode_VersionManifest
       = (Inr example_manifest, effect (NetGet versionManifestURL) empty_world)
   \<and> ''id'' \<notin> set (keys manifest_json)
   \<and> (\<exists>v. fetchJSON example_env empty_world versionManifestURL decode_VersionJSON
            = (Inr v, effect (NetGet versionManifestURL) empty_world) \<and> Id_json v = [])
   \<and> json_read example_env \<lparr>StatusCode = 200, Body = [''PK'', ''jar''], BodyErr = None\<rparr>
       = Inl SyntaxError
   \<and> fetchJSON example_env empty_world ''https://x/client.jar'' decode_VersionManifest
       = (Inl SyntaxError, effect (NetGet ''https://x/client.jar'') empty_world)"
proof -
  have f: "fits_struct fits_VersionManifest manifest_json"
    by (simp add: manifest_json_def fits_struct_def fits_VersionManifest_def fits_slice_def
          fits_Latest_def fits_VersionRef_def fits_string_def ascii_lower_def)
  have g: "fits_struct fits_VersionJSON manifest_json"
    by (simp add: manifest_json_def fits_struct_def fits_VersionJSON_def ascii_lower_def)
  have k: "''id'' \<notin> set (keys manifest_json)"
    by (simp add: manifest_json_def keys_def ascii_lower_def)
  have s: "StatusCode \<lparr>StatusCode = 200, Body = b, BodyErr = None\<rparr> = 200" for b
    by simp
  have m: "fetchJSON example_env empty_world versionManifestURL decode_VersionManifest
       = (Inr example_manifest, effect (NetGet versionManifestURL) empty_world)"
    by (simp add: main_defs world_defs example_defs decode_defs)
  from decode_fails_on_type_mismatch_only [OF example_fetch(1) s] example_fetch(2) g k
  have v: "\<exists>v. fetchJSON example_env empty_world versionManifestURL decode_VersionJSON
            = (Inr v, effect (NetGet versionManifestURL) empty_world) \<and> Id_json v = []"
    by blast
  from decode_fails_on_type_mismatch_only [OF example_fetch(3) s] example_fetch(4)
  have x: "fetchJSON example_env empty_world ''https://x/client.jar'' decode_VersionManifest
       = (Inl SyntaxError, effect (NetGet ''https://x/client.jar'') empty_world)"
    by blast
  from f k m v x example_fetch show ?thesis by blast
qed

text \<open>
  C10 as stated fails: the body \<open>{"versions": 5}\<close> is well-formed JSON and decoding it as
  a manifest returns a type error.
\<close>

theorem well_formed_json_rejected:
  "http_Get mistyped_env empty_world versionManifestURL
     = (Inr \<lparr>StatusCode = 200, Body = [mistyped_text], BodyErr = None\<rparr>,
        effect (NetGet versionManifestURL) empty_world)
   \<and> json_read mistyped_env \<lparr>StatusCode = 200, Body = [mistyped_text], BodyErr = None\<rparr>
       = Inr (JObject [(''versions'', JInt 5)])
   \<and> fetchJSON mistyped_env empty_world versionManifestURL decode_VersionManifest
       = (Inl UnmarshalTypeError, effect (NetGet versionManifestURL) empty_world)"
  by (simp add: main_defs world_defs example_defs decode_defs)

end
